theory Spec2Isabelle
  imports Main "HOL-Library.Char_ord" "HOL-Library.List_Lexorder"
begin

section \<open>The crawler of crawler.go\<close>

text \<open>
  The crawler keeps one LevelDB store. A key without a dot names a peer and holds a
  JSON-encoded \<open>SeenNode\<close>; a key with a dot names a counter and holds a decimal
  integer. Two loops work on the store: \<open>liveliness\<close> sweeps every stored peer and
  \<open>crawlFromKey\<close> walks the DHT for new ones. Both probe a peer with
  \<open>ephemeralConnection\<close>.

  The model is a state-passing one. The state is the store together with the trace of
  the calls made so far to the collaborators (mutex, store, network). What the outside
  world answers (dial results, clock, cancellation, routing) is an environment of
  functions of the moment of the call, the moment being the number of calls made before
  it. \<open>verbose\<close> only gates \<open>log.Println\<close>; log output is not part of the model.
  The code drops the errors of its store calls; in the model the store does not fail.
\<close>

subsection \<open>Records and stored bytes\<close>

record SeenNode =
  NAT :: bool
  lastSeen :: string

definition zero_SeenNode :: SeenNode where
  "zero_SeenNode = \<lparr>NAT = False, lastSeen = ''''\<rparr>"

datatype json =
    JNull
  | JBool bool
  | JNumber int
  | JString string
  | JArray "json list"
  | JObject "(string \<times> json) list"

text \<open>
  A stored value is a byte string. The model keeps what \<open>encoding/json\<close> reads in it:
  the JSON document it spells, or the raw text when it spells none.
\<close>

datatype bytes = Json json | Junk string

type_synonym error = "string option"

text \<open>An outgoing call: the trace lists them in the order the code makes them.\<close>

datatype event =
    Connect string int
  | Lock
  | Unlock
  | Get string
  | Put string bytes
  | Delete string
  | NewIterator
  | ClosestPeers string int

record state =
  db :: "(string \<times> bytes) list"
  trace :: "event list"

text \<open>
  The environment. \<open>multiaddr_err\<close> is the error of \<open>multiaddr.NewMultiaddr\<close> on a text,
  \<open>addrinfo_ok\<close> whether \<open>peer.AddrInfoFromP2pAddr\<close> finds a peer in it (else it returns a nil
  pointer), \<open>dial\<close> the error of \<open>host.Connect\<close> to a peer under a timeout,
  \<open>unix_nano\<close> the clock, \<open>date\<close> the day \<open>currentDate\<close> prints, \<open>cancelled\<close> whether
  \<open>ctx.Done()\<close> is closed, \<open>closest\<close> the peers \<open>GetClosestPeers\<close> delivers (\<open>None\<close>:
  it fails and hands back a nil channel). The two constants are declared outside
  crawler.go.
\<close>

record env =
  multiaddr_err :: "string \<Rightarrow> error"
  addrinfo_ok :: "string \<Rightarrow> bool"
  dial :: "nat \<Rightarrow> string \<Rightarrow> int \<Rightarrow> error"
  unix_nano :: "nat \<Rightarrow> int"
  date :: "nat \<Rightarrow> string"
  cancelled :: "nat \<Rightarrow> bool"
  closest :: "nat \<Rightarrow> string \<Rightarrow> int \<Rightarrow> string list option"
  timeEphemeralConnections :: int
  timeClosestPeers :: int

datatype outcome = Returned state | Panic string state

fun state_of :: "outcome \<Rightarrow> state" where
  "state_of (Returned s) = s"
| "state_of (Panic msg s) = s"

subsection \<open>Library calls\<close>

definition now :: "state \<Rightarrow> nat" where
  "now s = length (trace s)"

definition emit :: "event \<Rightarrow> state \<Rightarrow> state" where
  "emit e s = s\<lparr>trace := trace s @ [e]\<rparr>"

definition Second :: int where
  "Second = 1000000000"

text \<open>\<open>strings.Split(s, sep)\<close> for a one-byte separator.\<close>

fun Split :: "string \<Rightarrow> char \<Rightarrow> string list" where
  "Split [] sep = [[]]"
| "Split (c # cs) sep =
     (if c = sep then [] # Split cs sep
      else (case Split cs sep of [] \<Rightarrow> [[c]] | p # ps \<Rightarrow> (c # p) # ps))"

text \<open>\<open>strconv.FormatInt(i, 10)\<close>.\<close>

fun digits10 :: "nat \<Rightarrow> string" where
  "digits10 n =
     (if n < 10 then [''0123456789'' ! n]
      else digits10 (n div 10) @ [''0123456789'' ! (n mod 10)])"

declare digits10.simps [simp del]

definition FormatInt :: "int \<Rightarrow> string" where
  "FormatInt i = (if i < 0 then CHR ''-'' # digits10 (nat (- i)) else digits10 (nat i))"

text \<open>\<open>fmt.Sprintf("%v", err)\<close>.\<close>

definition errString :: "error \<Rightarrow> string" where
  "errString err = (case err of None \<Rightarrow> ''<nil>'' | Some msg \<Rightarrow> msg)"

text \<open>
  \<open>json.Unmarshal(data, &node)\<close> for a \<open>SeenNode\<close>. Only exported fields are decoded,
  and \<open>lastSeen\<close> is not exported: the one field a document can set is \<open>NAT\<close>. A member
  names it when it spells NAT in any case; a boolean is assigned, anything else leaves
  the field as it is; a later member wins. Bytes that are no JSON object leave the node
  untouched. The error is dropped by every caller.
\<close>

definition names_NAT :: "string \<Rightarrow> bool" where
  "names_NAT k = List.member
     [''NAT'', ''NAt'', ''NaT'', ''Nat'', ''nAT'', ''nAt'', ''naT'', ''nat''] k"

fun assign_NAT :: "json \<Rightarrow> SeenNode \<Rightarrow> SeenNode" where
  "assign_NAT (JBool b) node = node\<lparr>NAT := b\<rparr>"
| "assign_NAT j node = node"

fun decode_members :: "(string \<times> json) list \<Rightarrow> SeenNode \<Rightarrow> SeenNode" where
  "decode_members [] node = node"
| "decode_members ((k, j) # ms) node =
     decode_members ms (if names_NAT k then assign_NAT j node else node)"

fun json_Unmarshal :: "bytes \<Rightarrow> SeenNode \<Rightarrow> SeenNode" where
  "json_Unmarshal (Json (JObject ms)) node = decode_members ms node"
| "json_Unmarshal b node = node"

subsection \<open>The store and the mutex\<close>

text \<open>LevelDB keeps its entries in key order; an iterator walks a snapshot of them.\<close>

fun insert_entry :: "string \<Rightarrow> bytes \<Rightarrow> (string \<times> bytes) list \<Rightarrow> (string \<times> bytes) list" where
  "insert_entry k v [] = [(k, v)]"
| "insert_entry k v ((k', v') # r) =
     (if k = k' then (k, v) # r
      else if k < k' then (k, v) # (k', v') # r
      else (k', v') # insert_entry k v r)"

definition lookup :: "state \<Rightarrow> string \<Rightarrow> bytes option" where
  "lookup s k = map_of (db s) k"

definition db_Get :: "string \<Rightarrow> state \<Rightarrow> bytes option \<times> state" where
  "db_Get k s = (lookup s k, emit (Get k) s)"

definition db_Put :: "string \<Rightarrow> bytes \<Rightarrow> state \<Rightarrow> state" where
  "db_Put k v s = emit (Put k v) (s\<lparr>db := insert_entry k v (db s)\<rparr>)"

definition db_Delete :: "string \<Rightarrow> state \<Rightarrow> state" where
  "db_Delete k s = emit (Delete k) (s\<lparr>db := filter (\<lambda>kv. fst kv \<noteq> k) (db s)\<rparr>)"

definition mux_Lock :: "state \<Rightarrow> state" where
  "mux_Lock s = emit Lock s"

definition mux_Unlock :: "state \<Rightarrow> state" where
  "mux_Unlock s = emit Unlock s"

subsection \<open>Helpers declared outside crawler.go\<close>

text \<open>
  Modelled from the spec: \<open>storeSeenNode\<close> is not in crawler.go. It is the store's
  \<open>put(id, PeerRecord)\<close>, an upsert that overwrites any prior value with the serialized
  record \<open>{natSuspected: bool, lastSeen: string}\<close>, the members named as the struct's
  fields.
\<close>

definition json_Marshal :: "SeenNode \<Rightarrow> bytes" where
  "json_Marshal node =
     Json (JObject [(''NAT'', JBool (NAT node)), (''lastSeen'', JString (lastSeen node))])"

definition storeSeenNode :: "string \<Rightarrow> SeenNode \<Rightarrow> state \<Rightarrow> state" where
  "storeSeenNode key node s = db_Put key (json_Marshal node) s"

text \<open>
  Modelled from the spec: \<open>getSeenNode\<close> is not in crawler.go. It is the store's
  \<open>get(id) -> (PeerRecord, found)\<close>, a point lookup with \<open>found = false\<close> when the key
  is absent; the bytes found are decoded into a \<open>SeenNode\<close> as \<open>liveliness\<close> decodes
  them.
\<close>

definition getSeenNode :: "string \<Rightarrow> state \<Rightarrow> (SeenNode \<times> bool) \<times> state" where
  "getSeenNode key s =
     (let (v, s1) = db_Get key s in
      case v of
        None \<Rightarrow> ((zero_SeenNode, False), s1)
      | Some b \<Rightarrow> ((json_Unmarshal b zero_SeenNode, True), s1))"

text \<open>
  Modelled from the spec: \<open>updateCount\<close> is not in crawler.go. It is the store's
  \<open>incrementCounter(name, positive)\<close>: it reads the current integer value (default 0),
  applies +1 or -1 and writes it back as an integer-as-string.
\<close>

fun read_count :: "bytes option \<Rightarrow> int" where
  "read_count (Some (Json (JNumber n))) = n"
| "read_count v = 0"

definition counter :: "state \<Rightarrow> string \<Rightarrow> int" where
  "counter s name = read_count (lookup s name)"

definition updateCount :: "string \<Rightarrow> bool \<Rightarrow> state \<Rightarrow> state" where
  "updateCount name positive s =
     (let (v, s1) = db_Get name s;
          n = read_count v
      in db_Put name (Json (JNumber (if positive then n + 1 else n - 1))) s1)"

text \<open>
  Modelled from the spec: \<open>currentDate\<close> is not in crawler.go. It prints today's date,
  the \<open><YYYY-MM-DD>\<close> of the date-scoped counter names.
\<close>

definition currentDate :: "env \<Rightarrow> state \<Rightarrow> string" where
  "currentDate env s = date env (now s)"

subsection \<open>Collaborators\<close>

definition NewMultiaddr :: "env \<Rightarrow> string \<Rightarrow> error" where
  "NewMultiaddr env pString = multiaddr_err env pString"

text \<open>A \<open>*peer.AddrInfo\<close> is the multiaddr it was read from; \<open>None\<close> is the nil pointer.\<close>

definition AddrInfoFromP2pAddr :: "env \<Rightarrow> string \<Rightarrow> string option" where
  "AddrInfoFromP2pAddr env p = (if addrinfo_ok env p then Some p else None)"

definition host_Connect :: "env \<Rightarrow> string \<Rightarrow> int \<Rightarrow> state \<Rightarrow> error \<times> state" where
  "host_Connect env pInfo timeout s =
     (dial env (now s) pInfo timeout, emit (Connect pInfo timeout) s)"

definition timestamp_now :: "env \<Rightarrow> state \<Rightarrow> string" where
  "timestamp_now env s = FormatInt (unix_nano env (now s))"

subsection \<open>ephemeralConnection\<close>

text \<open>Dereferencing a nil \<open>pInfo\<close> panics before anything is dialled.\<close>

definition ephemeralConnection ::
    "env \<Rightarrow> string option \<Rightarrow> state \<Rightarrow> string + (error \<times> state)" where
  "ephemeralConnection env pInfo s =
     (case pInfo of
        None \<Rightarrow> Inl ''invalid memory address or nil pointer dereference''
      | Some a \<Rightarrow>
          (let (err, s1) = host_Connect env a (timeEphemeralConnections env * Second) s in
           if errString err = ''context deadline exceeded''
           then Inr (host_Connect env a (4 * timeEphemeralConnections env * Second) s1)
           else Inr (err, s1)))"

subsection \<open>liveliness\<close>

text \<open>The body of \<open>for iter.Next()\<close> for one entry of the iterator.\<close>

definition liveliness_entry :: "env \<Rightarrow> string \<times> bytes \<Rightarrow> state \<Rightarrow> outcome" where
  "liveliness_entry env kv s =
     (let key = fst kv; val = snd kv in
      if length (Split key CHR ''.'') = 1 then
        (let pString = ''/p2p/'' @ key in
         case NewMultiaddr env pString of
           Some err \<Rightarrow> Panic err s
         | None \<Rightarrow>
             (case ephemeralConnection env (AddrInfoFromP2pAddr env pString) s of
                Inl msg \<Rightarrow> Panic msg s
              | Inr (canConnectErr, s1) \<Rightarrow>
                  (let node = json_Unmarshal val zero_SeenNode;
                       timestamp = timestamp_now env s1
                   in if NAT node = False \<and> canConnectErr \<noteq> None then
                        (let s2 = mux_Lock s1;
                             s3 = updateCount (currentDate env s2 @ ''.left'') True s2;
                             s4 = updateCount ''total.count'' False s3;
                             s5 = updateCount ''total.left'' True s4;
                             s6 = db_Delete key s5
                         in Returned (mux_Unlock s6))
                      else
                        Returned (storeSeenNode key
                          (node\<lparr>lastSeen := timestamp, NAT := (canConnectErr \<noteq> None)\<rparr>) s1))))
      else Returned s)"

fun iterate :: "env \<Rightarrow> (string \<times> bytes) list \<Rightarrow> state \<Rightarrow> outcome" where
  "iterate env [] s = Returned s"
| "iterate env (kv # rest) s =
     (case liveliness_entry env kv s of
        Panic msg s' \<Rightarrow> Panic msg s'
      | Returned s' \<Rightarrow> iterate env rest s')"

text \<open>One pass: from the label \<open>Alive\<close> to \<open>goto Alive\<close>.\<close>

definition sweep_pass :: "env \<Rightarrow> state \<Rightarrow> outcome" where
  "sweep_pass env s = iterate env (db s) (emit NewIterator s)"

text \<open>
  The first \<open>n\<close> passes of the loop \<open>Alive: ... goto Alive\<close>: \<open>Returned\<close> holds the state
  they leave, \<open>Panic\<close> the state at the panic that ended them early.
\<close>

fun Alive :: "env \<Rightarrow> nat \<Rightarrow> state \<Rightarrow> outcome" where
  "Alive env 0 s = Returned s"
| "Alive env (Suc n) s =
     (case sweep_pass env s of
        Panic msg s' \<Rightarrow> Panic msg s'
      | Returned s' \<Rightarrow> Alive env n s')"

text \<open>
  \<open>liveliness\<close> on a budget of \<open>n\<close> passes. \<open>None\<close>: the budget is spent and the loop is
  still running.
\<close>

definition liveliness :: "env \<Rightarrow> nat \<Rightarrow> state \<Rightarrow> outcome option" where
  "liveliness env n s =
     (if cancelled env (now s) then Some (Returned s)
      else (case Alive env n s of
              Panic msg s' \<Rightarrow> Some (Panic msg s')
            | Returned s' \<Rightarrow> None))"

subsection \<open>crawlFromKey\<close>

text \<open>What the walk does with the record it looked up, under the lock.\<close>

definition crawl_update ::
    "env \<Rightarrow> string \<Rightarrow> error \<Rightarrow> string \<Rightarrow> SeenNode \<Rightarrow> state \<Rightarrow> state" where
  "crawl_update env pID canConnectErr timestamp stored s =
     (if stored = zero_SeenNode then
        (let hasNat = (canConnectErr \<noteq> None);
             aux = \<lparr>NAT = hasNat, lastSeen = timestamp\<rparr>;
             s1 = storeSeenNode pID aux s;
             s2 = updateCount (currentDate env s1 @ ''.count'') True s1
         in updateCount ''total.count'' True s2)
      else if NAT stored = False \<and> canConnectErr \<noteq> None then
        (let s1 = updateCount (currentDate env s @ ''.left'') True s;
             s2 = updateCount ''total.count'' False s1;
             s3 = updateCount ''total.left'' False s2
         in db_Delete pID s3)
      else storeSeenNode pID (stored\<lparr>lastSeen := timestamp\<rparr>) s)"

text \<open>The body of \<open>for _, pID := range ps\<close> for one candidate.\<close>

definition crawl_peer :: "env \<Rightarrow> string \<Rightarrow> state \<Rightarrow> outcome" where
  "crawl_peer env pID s =
     (let pString = ''/p2p/'' @ pID in
      case NewMultiaddr env pString of
        Some err \<Rightarrow> Panic err s
      | None \<Rightarrow>
          (case ephemeralConnection env (AddrInfoFromP2pAddr env pString) s of
             Inl msg \<Rightarrow> Panic msg s
           | Inr (canConnectErr, s1) \<Rightarrow>
               (let timestamp = timestamp_now env s1;
                    s2 = mux_Lock s1;
                    (r, s3) = getSeenNode pID s2;
                    s4 = crawl_update env pID canConnectErr timestamp (fst r) s3
                in Returned (mux_Unlock s4))))"

fun crawl_peers :: "env \<Rightarrow> string list \<Rightarrow> state \<Rightarrow> outcome" where
  "crawl_peers env [] s = Returned s"
| "crawl_peers env (pID # ps) s =
     (case crawl_peer env pID s of
        Panic msg s' \<Rightarrow> Panic msg s'
      | Returned s' \<Rightarrow> crawl_peers env ps s')"

text \<open>
  \<open>crawlFromKey\<close>. When \<open>GetClosestPeers\<close> fails its channel is nil, and ranging over a
  nil channel never ends: \<open>None\<close>.
\<close>

definition crawlFromKey :: "env \<Rightarrow> string \<Rightarrow> state \<Rightarrow> outcome option" where
  "crawlFromKey env key s =
     (let timeout = timeClosestPeers env * Second;
          s1 = emit (ClosestPeers key timeout) s
      in case closest env (now s) key timeout of
           None \<Rightarrow> None
         | Some ps \<Rightarrow> Some (crawl_peers env ps s1))"

subsection \<open>Simulated collaborators\<close>

text \<open>
  A simulated outside world for running the model on concrete inputs: every peer
  address parses, the clock ticks once per call, the day is fixed, and a walk is offered the
  candidates \<open>QmA\<close> and \<open>QmB\<close>. The dial results and the cancellation signal are
  given.
\<close>

definition sim_env :: "(nat \<Rightarrow> string \<Rightarrow> int \<Rightarrow> error) \<Rightarrow> (nat \<Rightarrow> bool) \<Rightarrow> env" where
  "sim_env d c =
     \<lparr>multiaddr_err = (\<lambda>p. None), addrinfo_ok = (\<lambda>p. True), dial = d,
      unix_nano = (\<lambda>k. 1000 + int k), date = (\<lambda>k. ''2019-10-25''), cancelled = c,
      closest = (\<lambda>k key t. Some [''QmA'', ''QmB'']),
      timeEphemeralConnections = 5, timeClosestPeers = 60\<rparr>"

text \<open>A peer that exceeds the short deadline and answers within the long one.\<close>

definition slow_dial :: "nat \<Rightarrow> string \<Rightarrow> int \<Rightarrow> error" where
  "slow_dial k a t = (if t < 20 * Second then Some ''context deadline exceeded'' else None)"

text \<open>\<open>QmB\<close> refuses every connection; every other peer accepts.\<close>

definition refusing_dial :: "nat \<Rightarrow> string \<Rightarrow> int \<Rightarrow> error" where
  "refusing_dial k a t = (if a = ''/p2p/QmB'' then Some ''connection refused'' else None)"

definition never :: "nat \<Rightarrow> bool" where
  "never k = False"

text \<open>The cancellation signal arrives once the first call has been made.\<close>

definition after_start :: "nat \<Rightarrow> bool" where
  "after_start k = (0 < k)"

definition empty_store :: state where
  "empty_store = \<lparr>db = [], trace = []\<rparr>"

text \<open>A store that knows one peer and counts one.\<close>

definition store_of :: "string \<Rightarrow> SeenNode \<Rightarrow> state" where
  "store_of k node =
     \<lparr>db = [(k, json_Marshal node), (''total.count'', Json (JNumber 1))], trace = []\<rparr>"

text \<open>The world where only \<open>QmB\<close> refuses and nothing is cancelled; a store that knows \<open>QmB\<close>.\<close>

definition world :: env where
  "world = sim_env refusing_dial never"

definition knows_QmB :: state where
  "knows_QmB = store_of ''QmB'' \<lparr>NAT = False, lastSeen = ''1000''\<rparr>"

subsection \<open>Reading a trace\<close>

text \<open>
  An event spares the counters when it does not probe, delete or overwrite a counter
  entry: a probe dials the address of a dot-free key, a delete removes a dot-free key,
  and a write to a key with a dot writes an integer.
\<close>

fun is_count :: "bytes \<Rightarrow> bool" where
  "is_count (Json (JNumber n)) = True"
| "is_count b = False"

fun spares_counters :: "event \<Rightarrow> bool" where
  "spares_counters (Connect a t) = (take 5 a = ''/p2p/'' \<and> CHR ''.'' \<notin> set (drop 5 a))"
| "spares_counters (Put k v) = (is_count v \<or> CHR ''.'' \<notin> set k)"
| "spares_counters (Delete k) = (CHR ''.'' \<notin> set k)"
| "spares_counters e = True"

text \<open>
  A counter entry is kept from one state to a later one when its bytes are the same or
  hold an integer: it is neither deleted nor overwritten with a peer record.
\<close>

definition counter_kept :: "string \<Rightarrow> state \<Rightarrow> state \<Rightarrow> bool" where
  "counter_kept k s s' =
     (lookup s' k = lookup s k \<or> (case lookup s' k of None \<Rightarrow> False | Some v \<Rightarrow> is_count v))"

fun store_access :: "event \<Rightarrow> bool" where
  "store_access (Get k) = True"
| "store_access (Put k v) = True"
| "store_access (Delete k) = True"
| "store_access e = False"

fun probe_or_access :: "event \<Rightarrow> bool" where
  "probe_or_access (Connect a t) = True"
| "probe_or_access e = store_access e"

text \<open>
  \<open>guarded P held es\<close>: starting with the mutex held or not, the events \<open>es\<close> lock and
  unlock in turn, end unlocked, and every event that \<open>P\<close> selects happens while the mutex
  is held.
\<close>

fun guarded :: "(event \<Rightarrow> bool) \<Rightarrow> bool \<Rightarrow> event list \<Rightarrow> bool" where
  "guarded P held [] = (\<not> held)"
| "guarded P held (Lock # es) = (\<not> held \<and> guarded P True es)"
| "guarded P held (Unlock # es) = (held \<and> guarded P False es)"
| "guarded P held (e # es) = ((held \<or> \<not> P e) \<and> guarded P held es)"

section \<open>Properties\<close>

subsection \<open>The store\<close>

lemma Split_not_Nil: "Split k c \<noteq> []"
  by (induction k) (auto split: list.splits)

lemma length_Split: "length (Split k c) = Suc (count_list k c)"
  by (induction k) (auto split: list.splits simp: Split_not_Nil)

lemma Split_single: "length (Split k c) = 1 \<longleftrightarrow> c \<notin> set k"
  by (simp add: length_Split count_list_0_iff)

lemma map_of_insert_entry: "map_of (insert_entry k v d) = (map_of d)(k \<mapsto> v)"
  by (induction d) auto

lemma map_of_filter_key: "map_of (filter (\<lambda>kv. fst kv \<noteq> k) d) = (map_of d)(k := None)"
  by (induction d) auto

lemma lookup_emit [simp]: "lookup (emit e s) = lookup s"
  by (simp add: lookup_def emit_def fun_eq_iff)

lemma trace_emit [simp]: "trace (emit e s) = trace s @ [e]"
  by (simp add: emit_def)

lemma db_emit [simp]: "db (emit e s) = db s"
  by (simp add: emit_def)

lemma now_emit [simp]: "now (emit e s) = Suc (now s)"
  by (simp add: now_def)

lemma lookup_db_Put [simp]: "lookup (db_Put k v s) = (lookup s)(k \<mapsto> v)"
  by (simp add: db_Put_def lookup_def map_of_insert_entry emit_def fun_eq_iff)

lemma trace_db_Put [simp]: "trace (db_Put k v s) = trace s @ [Put k v]"
  by (simp add: db_Put_def)

lemma lookup_db_Delete [simp]: "lookup (db_Delete k s) = (lookup s)(k := None)"
  by (simp add: db_Delete_def lookup_def map_of_filter_key emit_def fun_eq_iff)

lemma trace_db_Delete [simp]: "trace (db_Delete k s) = trace s @ [Delete k]"
  by (simp add: db_Delete_def)

lemma lookup_mux [simp]: "lookup (mux_Lock s) = lookup s" "lookup (mux_Unlock s) = lookup s"
  by (simp_all add: mux_Lock_def mux_Unlock_def)

lemma trace_mux [simp]:
  "trace (mux_Lock s) = trace s @ [Lock]" "trace (mux_Unlock s) = trace s @ [Unlock]"
  by (simp_all add: mux_Lock_def mux_Unlock_def)

lemma now_mux [simp]: "now (mux_Lock s) = Suc (now s)" "now (mux_Unlock s) = Suc (now s)"
  by (simp_all add: mux_Lock_def mux_Unlock_def)

lemma counter_cong: "lookup s = lookup t \<Longrightarrow> counter s = counter t"
  by (simp add: counter_def fun_eq_iff)

lemma counter_lookup_eq: "lookup s = m \<Longrightarrow> counter s c = read_count (m c)"
  by (simp add: counter_def)

lemma lookup_empty: "db s = [] \<Longrightarrow> lookup s = Map.empty"
  by (simp add: lookup_def fun_eq_iff)

lemma counter_mux [simp]: "counter (mux_Lock s) = counter s" "counter (mux_Unlock s) = counter s"
  by (simp_all add: counter_def fun_eq_iff)

lemma lookup_updateCount [simp]:
  "lookup (updateCount name positive s) =
     (lookup s)(name \<mapsto>
        Json (JNumber (if positive then counter s name + 1 else counter s name - 1)))"
  by (simp add: updateCount_def db_Get_def counter_def)

lemma trace_updateCount [simp]:
  "trace (updateCount name positive s) =
     trace s @ [Get name,
       Put name (Json (JNumber (if positive then counter s name + 1 else counter s name - 1)))]"
  by (simp add: updateCount_def db_Get_def counter_def)

lemma now_updateCount [simp]: "now (updateCount name positive s) = Suc (Suc (now s))"
  by (simp add: now_def)

lemma counter_updateCount [simp]:
  "counter (updateCount name positive s) c =
     (if c = name then (if positive then counter s name + 1 else counter s name - 1)
      else counter s c)"
  by (simp add: counter_def)

lemma counter_db_Delete: "c \<noteq> k \<Longrightarrow> counter (db_Delete k s) c = counter s c"
  by (simp add: counter_def)

lemma lookup_storeSeenNode [simp]:
  "lookup (storeSeenNode key node s) = (lookup s)(key \<mapsto> json_Marshal node)"
  by (simp add: storeSeenNode_def)

lemma trace_storeSeenNode [simp]:
  "trace (storeSeenNode key node s) = trace s @ [Put key (json_Marshal node)]"
  by (simp add: storeSeenNode_def)

lemma now_storeSeenNode [simp]: "now (storeSeenNode key node s) = Suc (now s)"
  by (simp add: now_def)

lemma counter_storeSeenNode:
  "c \<noteq> key \<Longrightarrow> counter (storeSeenNode key node s) c = counter s c"
  by (simp add: counter_def)

lemma getSeenNode_eq:
  "getSeenNode key s =
     ((case lookup s key of
         None \<Rightarrow> (zero_SeenNode, False)
       | Some b \<Rightarrow> (json_Unmarshal b zero_SeenNode, True)), emit (Get key) s)"
  by (simp add: getSeenNode_def db_Get_def split: option.splits)

lemma Split_single_Suc: "length (Split k c) = Suc 0 \<longleftrightarrow> c \<notin> set k"
  by (simp add: length_Split count_list_0_iff)

subsection \<open>Key names\<close>

lemma dot_free_names:
  assumes "CHR ''.'' \<notin> set key"
  shows "key \<noteq> d @ ''.left''" "key \<noteq> d @ ''.count''"
    "key \<noteq> ''total.left''" "key \<noteq> ''total.count''"
    "d @ ''.left'' \<noteq> key" "d @ ''.count'' \<noteq> key"
    "''total.left'' \<noteq> key" "''total.count'' \<noteq> key"
  using assms by auto

lemma day_left_total_left: "d @ ''.left'' = ''total.left'' \<longleftrightarrow> d = ''total''"
proof -
  have "''total.left'' = ''total'' @ ''.left''" by simp
  then show ?thesis by (metis append_same_eq)
qed

lemma day_count_total_count: "d @ ''.count'' = ''total.count'' \<longleftrightarrow> d = ''total''"
proof -
  have "''total.count'' = ''total'' @ ''.count''" by simp
  then show ?thesis by (metis append_same_eq)
qed

lemma day_left_not_count: "d @ ''.left'' \<noteq> ''total.count''"
proof
  assume "d @ ''.left'' = ''total.count''"
  then have "rev (d @ ''.left'') = rev ''total.count''" by (rule arg_cong)
  then show False by simp
qed

subsection \<open>Decoding\<close>

lemma lastSeen_assign_NAT [simp]: "lastSeen (assign_NAT j node) = lastSeen node"
  by (cases j) simp_all

lemma lastSeen_decode_members [simp]: "lastSeen (decode_members ms node) = lastSeen node"
  by (induction ms arbitrary: node) auto

lemma lastSeen_json_Unmarshal [simp]: "lastSeen (json_Unmarshal b node) = lastSeen node"
  by (induction b node rule: json_Unmarshal.induct) simp_all

lemma NAT_Unmarshal_Marshal [simp]: "NAT (json_Unmarshal (json_Marshal r) node) = NAT r"
  by (simp add: json_Marshal_def names_NAT_def)

lemma SeenNode_overwrite [simp]:
  "(r::SeenNode)\<lparr>lastSeen := a, NAT := b\<rparr> = \<lparr>NAT = b, lastSeen = a\<rparr>"
  by simp

lemma SeenNode_refresh [simp]:
  "(r::SeenNode)\<lparr>lastSeen := a\<rparr> = \<lparr>NAT = NAT r, lastSeen = a\<rparr>"
  by simp

lemma NAT_not_zero: "NAT r \<Longrightarrow> r \<noteq> zero_SeenNode"
  by (auto simp: zero_SeenNode_def)

subsection \<open>The probe\<close>

lemma errString_deadline:
  "errString err = ''context deadline exceeded'' \<longleftrightarrow> err = Some ''context deadline exceeded''"
  by (cases err) (simp_all add: errString_def)

text \<open>
  C5. The probe always returns and leaves the store alone. It dials once under
  T1 = \<open>timeEphemeralConnections\<close> seconds; it dials a second time exactly when the
  first error is the deadline error, the one that prints as \<open>context deadline exceeded\<close>,
  and then under 4 * T1; it never dials a third time. Its result is the error of the last
  dial made, so any other first failure is returned at once (unreachable, one dial), and
  the result is nil (reachable) exactly when the first dial succeeds or the retry does.
\<close>

theorem probe_retry_and_classification:
  "(let T1 = timeEphemeralConnections env * Second;
        first = dial env (now s) a T1;
        second = dial env (Suc (now s)) a (4 * T1);
        retry = (first = Some ''context deadline exceeded'')
    in \<exists>err s'. ephemeralConnection env (Some a) s = Inr (err, s')
         \<and> db s' = db s
         \<and> trace s' = trace s @
               (if retry then [Connect a T1, Connect a (4 * T1)] else [Connect a T1])
         \<and> err = (if retry then second else first)
         \<and> (err = None) = (first = None \<or> retry \<and> second = None))"
  by (auto simp add: ephemeralConnection_def host_Connect_def errString_deadline Let_def emit_def
      now_def mult.assoc)

theorem probe_retry_and_classification_witness:
  "(\<exists>err s'. ephemeralConnection (sim_env slow_dial never) (Some ''/p2p/QmA'') empty_store
               = Inr (err, s')
        \<and> db s' = db empty_store
        \<and> trace s' = trace empty_store @
             [Connect ''/p2p/QmA'' 5000000000, Connect ''/p2p/QmA'' 20000000000]
        \<and> err = None)
   \<and> (\<exists>err s'. ephemeralConnection (sim_env refusing_dial never) (Some ''/p2p/QmB'') empty_store
               = Inr (err, s')
        \<and> db s' = db empty_store
        \<and> trace s' = trace empty_store @ [Connect ''/p2p/QmB'' 5000000000]
        \<and> err = Some ''connection refused'')"
  using probe_retry_and_classification [of "sim_env slow_dial never" empty_store "''/p2p/QmA''"]
    probe_retry_and_classification [of "sim_env refusing_dial never" empty_store "''/p2p/QmB''"]
  by (simp add: sim_env_def slow_dial_def refusing_dial_def empty_store_def Second_def now_def
      Let_def)

lemma ephemeralConnection_frame:
  assumes "ephemeralConnection env p s = Inr (e, s1)"
  shows "db s1 = db s" and "lookup s1 = lookup s" and "counter s1 = counter s"
proof -
  show d: "db s1 = db s"
    using assms
    by (auto simp: ephemeralConnection_def host_Connect_def Let_def
        split: option.splits if_splits)
  then show l: "lookup s1 = lookup s" by (simp add: lookup_def fun_eq_iff)
  then show "counter s1 = counter s" by (rule counter_cong)
qed

lemma probe_reachable:
  assumes "addrinfo_ok env p" and "\<forall>k t. dial env k p t = None"
  shows "\<exists>s1. ephemeralConnection env (AddrInfoFromP2pAddr env p) s = Inr (None, s1)"
  using assms
  by (simp add: ephemeralConnection_def AddrInfoFromP2pAddr_def host_Connect_def errString_def)

lemma probe_unreachable:
  assumes "addrinfo_ok env p" and "\<forall>k t. dial env k p t \<noteq> None"
  shows "\<exists>e s1. ephemeralConnection env (AddrInfoFromP2pAddr env p) s = Inr (Some e, s1)"
proof -
  let ?T = "timeEphemeralConnections env * Second"
  obtain e1 where e1: "dial env (now s) p ?T = Some e1"
    using assms(2) by (meson option.exhaust)
  obtain e2 where e2: "dial env (Suc (now s)) p (4 * timeEphemeralConnections env * Second) = Some e2"
    using assms(2) by (meson option.exhaust)
  show ?thesis
    using assms(1) e1 e2
    by (simp add: ephemeralConnection_def AddrInfoFromP2pAddr_def host_Connect_def Let_def)
qed


subsection \<open>The sweep, entry by entry\<close>

lemma liveliness_entry_left:
  assumes "CHR ''.'' \<notin> set key"
    and "NewMultiaddr env (''/p2p/'' @ key) = None"
    and "ephemeralConnection env (AddrInfoFromP2pAddr env (''/p2p/'' @ key)) s = Inr (Some e, s1)"
    and "NAT (json_Unmarshal val zero_SeenNode) = False"
  shows "liveliness_entry env (key, val) s =
           Returned (mux_Unlock (db_Delete key (updateCount ''total.left'' True
             (updateCount ''total.count'' False
               (updateCount (currentDate env (mux_Lock s1) @ ''.left'') True (mux_Lock s1))))))"
  using assms by (simp add: liveliness_entry_def Split_single_Suc Let_def)

lemma liveliness_entry_seen:
  assumes "CHR ''.'' \<notin> set key"
    and "NewMultiaddr env (''/p2p/'' @ key) = None"
    and "ephemeralConnection env (AddrInfoFromP2pAddr env (''/p2p/'' @ key)) s = Inr (e, s1)"
    and "NAT (json_Unmarshal val zero_SeenNode) \<or> e = None"
  shows "liveliness_entry env (key, val) s =
           Returned (storeSeenNode key
             \<lparr>NAT = (e \<noteq> None), lastSeen = timestamp_now env s1\<rparr> s1)"
  using assms by (auto simp add: liveliness_entry_def Split_single_Suc Let_def)

subsection \<open>The walk, candidate by candidate\<close>

lemma crawl_peer_eq:
  assumes "NewMultiaddr env (''/p2p/'' @ pID) = None"
    and "ephemeralConnection env (AddrInfoFromP2pAddr env (''/p2p/'' @ pID)) s = Inr (e, s1)"
  shows "crawl_peer env pID s =
           Returned (mux_Unlock (crawl_update env pID e (timestamp_now env s1)
             (case lookup s pID of None \<Rightarrow> zero_SeenNode
                                 | Some b \<Rightarrow> json_Unmarshal b zero_SeenNode)
             (emit (Get pID) (mux_Lock s1))))"
  using assms ephemeralConnection_frame(2) [OF assms(2)]
  by (simp add: crawl_peer_def getSeenNode_eq Let_def split: option.splits)

lemma crawl_update_new:
  assumes "CHR ''.'' \<notin> set pID" and "today \<noteq> ''total''"
    and "date env (now s + 1) = today"
  shows "lookup (crawl_update env pID e ts zero_SeenNode s) =
           (lookup s)(pID \<mapsto> json_Marshal \<lparr>NAT = (e \<noteq> None), lastSeen = ts\<rparr>,
             today @ ''.count'' \<mapsto> Json (JNumber (counter s (today @ ''.count'') + 1)),
             ''total.count'' \<mapsto> Json (JNumber (counter s ''total.count'' + 1)))"
  using assms dot_free_names [OF assms(1)]
  by (simp add: crawl_update_def Let_def currentDate_def counter_storeSeenNode
      day_count_total_count)

lemma crawl_update_left:
  assumes "stored \<noteq> zero_SeenNode" and "NAT stored = False" and "e \<noteq> None"
  shows "crawl_update env pID e ts stored s =
           db_Delete pID (updateCount ''total.left'' False (updateCount ''total.count'' False
             (updateCount (currentDate env s @ ''.left'') True s)))"
  using assms by (simp add: crawl_update_def Let_def)

lemma crawl_update_seen:
  assumes "stored \<noteq> zero_SeenNode" and "NAT stored \<or> e = None"
  shows "crawl_update env pID e ts stored s = storeSeenNode pID (stored\<lparr>lastSeen := ts\<rparr>) s"
  using assms by (auto simp add: crawl_update_def Let_def)

lemma crawl_peer_new:
  assumes dotfree: "CHR ''.'' \<notin> set pID" and day: "today \<noteq> ''total''"
    and addr: "NewMultiaddr env (''/p2p/'' @ pID) = None"
    and probe: "ephemeralConnection env (AddrInfoFromP2pAddr env (''/p2p/'' @ pID)) s = Inr (e, s1)"
    and stored: "(case lookup s pID of None \<Rightarrow> zero_SeenNode
                     | Some b \<Rightarrow> json_Unmarshal b zero_SeenNode) = zero_SeenNode"
    and today: "date env (now s1 + 3) = today"
  shows "\<exists>s'. crawl_peer env pID s = Returned s'
           \<and> s' = mux_Unlock (updateCount ''total.count'' True
                  (updateCount (today @ ''.count'') True
                    (storeSeenNode pID
                      \<lparr>NAT = (e \<noteq> None), lastSeen = timestamp_now env s1\<rparr>
                      (snd (getSeenNode pID (mux_Lock s1))))))
           \<and> lookup s' =
             (lookup s)(pID \<mapsto> json_Marshal \<lparr>NAT = (e \<noteq> None), lastSeen = timestamp_now env s1\<rparr>,
               today @ ''.count'' \<mapsto> Json (JNumber (counter s (today @ ''.count'') + 1)),
               ''total.count'' \<mapsto> Json (JNumber (counter s ''total.count'' + 1)))"
proof -
  have l: "lookup s1 = lookup s"
    by (rule ephemeralConnection_frame(2) [OF probe])
  have run: "crawl_update env pID e (timestamp_now env s1) zero_SeenNode
               (emit (Get pID) (mux_Lock s1)) =
             updateCount ''total.count'' True
               (updateCount (today @ ''.count'') True
                 (storeSeenNode pID
                   \<lparr>NAT = (e \<noteq> None), lastSeen = timestamp_now env s1\<rparr>
                   (snd (getSeenNode pID (mux_Lock s1)))))"
    using today
    by (simp add: crawl_update_def Let_def currentDate_def getSeenNode_eq eval_nat_numeral)
  have c: "counter (emit (Get pID) (mux_Lock s1)) = counter s"
    by (rule counter_cong) (simp add: l)
  have "lookup (crawl_update env pID e (timestamp_now env s1) zero_SeenNode
                  (emit (Get pID) (mux_Lock s1))) =
          (lookup s)(pID \<mapsto> json_Marshal \<lparr>NAT = (e \<noteq> None), lastSeen = timestamp_now env s1\<rparr>,
             today @ ''.count'' \<mapsto> Json (JNumber (counter s (today @ ''.count'') + 1)),
             ''total.count'' \<mapsto> Json (JNumber (counter s ''total.count'' + 1)))"
    using crawl_update_new [OF dotfree day, of env "emit (Get pID) (mux_Lock s1)" e
        "timestamp_now env s1"] today
    by (simp add: c l eval_nat_numeral)
  then show ?thesis
    unfolding crawl_peer_eq [OF addr probe] stored state_of.simps run [symmetric] by simp
qed

lemma crawl_peers_two:
  assumes "crawl_peer env A s = Returned sA" and "crawl_peer env B sA = Returned sB"
  shows "crawl_peers env [A, B] s = Returned sB"
  using assms by simp

subsection \<open>Departures seen by the sweep\<close>

text \<open>
  C1. The sweep meets a stored peer (a dot-free key whose address parses) whose record
  decodes to \<open>NAT = false\<close>, and the probe fails. Then the entry returns after these
  calls, made under the lock: \<open>updateCount(<today>.left, true)\<close>,
  \<open>updateCount(total.count, false)\<close>, \<open>updateCount(total.left, true)\<close> and the delete of
  the key. So \<open><today>.left\<close> is one higher, \<open>total.left\<close> is one higher,
  \<open>total.count\<close> is one lower, and the key is gone from the store. \<open>today\<close> is the
  date read under the lock, and no date prints as \<open>total\<close>.
\<close>

theorem sweep_departure:
  assumes dotfree: "CHR ''.'' \<notin> set key"
    and addr: "NewMultiaddr env (''/p2p/'' @ key) = None"
    and probe: "ephemeralConnection env (AddrInfoFromP2pAddr env (''/p2p/'' @ key)) s
                  = Inr (Some e, s1)"
    and nat: "NAT (json_Unmarshal val zero_SeenNode) = False"
    and today: "currentDate env (mux_Lock s1) = today"
    and day: "today \<noteq> ''total''"
  shows "\<exists>s'. liveliness_entry env (key, val) s = Returned s'
           \<and> s' = mux_Unlock (db_Delete key (updateCount ''total.left'' True
                  (updateCount ''total.count'' False
                    (updateCount (today @ ''.left'') True (mux_Lock s1)))))
           \<and> counter s' (today @ ''.left'') = counter s (today @ ''.left'') + 1
           \<and> counter s' ''total.left'' = counter s ''total.left'' + 1
           \<and> counter s' ''total.count'' = counter s ''total.count'' - 1
           \<and> lookup s' key = None"
proof -
  note names = dot_free_names [OF dotfree]
  have c: "counter s1 = counter s"
    by (rule ephemeralConnection_frame(3) [OF probe])
  show ?thesis
    unfolding liveliness_entry_left [OF dotfree addr probe nat] today
    using day
    by (simp add: counter_db_Delete names c day_left_total_left day_left_not_count)
qed

theorem sweep_departure_witness:
  "\<exists>s'. liveliness_entry (sim_env refusing_dial never)
            (''QmB'', json_Marshal \<lparr>NAT = False, lastSeen = ''1000''\<rparr>)
            (store_of ''QmB'' \<lparr>NAT = False, lastSeen = ''1000''\<rparr>) = Returned s'
        \<and> counter s' ''2019-10-25.left'' = 1
        \<and> counter s' ''total.left'' = 1
        \<and> counter s' ''total.count'' = 0
        \<and> lookup s' ''QmB'' = None"
proof -
  let ?E = "sim_env refusing_dial never"
  let ?S = "store_of ''QmB'' \<lparr>NAT = False, lastSeen = ''1000''\<rparr>"
  let ?S1 = "?S\<lparr>trace := [Connect ''/p2p/QmB'' 5000000000]\<rparr>"
  have h1: "CHR ''.'' \<notin> set ''QmB''" by simp
  have h2: "NewMultiaddr ?E (''/p2p/'' @ ''QmB'') = None"
    by (simp add: NewMultiaddr_def sim_env_def)
  have h3: "ephemeralConnection ?E (AddrInfoFromP2pAddr ?E (''/p2p/'' @ ''QmB'')) ?S
              = Inr (Some ''connection refused'', ?S1)"
    by (simp add: ephemeralConnection_def AddrInfoFromP2pAddr_def host_Connect_def sim_env_def
        refusing_dial_def errString_def Second_def emit_def store_of_def)
  have h4: "NAT (json_Unmarshal (json_Marshal \<lparr>NAT = False, lastSeen = ''1000''\<rparr>) zero_SeenNode)
              = False"
    by simp
  have h5: "currentDate ?E (mux_Lock ?S1) = ''2019-10-25''"
    by (simp add: currentDate_def sim_env_def)
  have h6: "''2019-10-25'' \<noteq> ''total''" by simp
  show ?thesis
    using sweep_departure [OF h1 h2 h3 h4 h5 h6]
    by (simp add: counter_def lookup_def store_of_def)
qed

subsection \<open>Peers suspected of NAT\<close>

text \<open>
  C4. A stored peer whose record decodes to \<open>NAT = true\<close> fails its probe. In the
  sweep (the record is the iterator's value) and in the walk (the record is the one
  looked up) the key is written back with \<open>NAT = true\<close> and \<open>lastSeen\<close> the time read
  after the probe; no other key changes, so the record is not deleted and the departure
  counters \<open><day>.left\<close>, \<open>total.left\<close> and \<open>total.count\<close> keep their values.
\<close>

theorem nat_suspected_survives:
  assumes dotfree: "CHR ''.'' \<notin> set key"
    and addr: "NewMultiaddr env (''/p2p/'' @ key) = None"
    and probe: "ephemeralConnection env (AddrInfoFromP2pAddr env (''/p2p/'' @ key)) s
                  = Inr (Some e, s1)"
    and swept: "NAT (json_Unmarshal val zero_SeenNode)"
    and stored: "lookup s key = Some v" "NAT (json_Unmarshal v zero_SeenNode)"
  shows "(\<exists>s'. liveliness_entry env (key, val) s = Returned s'
            \<and> s' = storeSeenNode key \<lparr>NAT = True, lastSeen = timestamp_now env s1\<rparr> s1
            \<and> lookup s' = (lookup s)(key \<mapsto>
                  json_Marshal \<lparr>NAT = True, lastSeen = timestamp_now env s1\<rparr>)
            \<and> counter s' (d @ ''.left'') = counter s (d @ ''.left'')
            \<and> counter s' ''total.left'' = counter s ''total.left''
            \<and> counter s' ''total.count'' = counter s ''total.count'')
       \<and> (\<exists>s'. crawl_peer env key s = Returned s'
            \<and> s' = mux_Unlock (storeSeenNode key
                  \<lparr>NAT = True, lastSeen = timestamp_now env s1\<rparr>
                  (snd (getSeenNode key (mux_Lock s1))))
            \<and> lookup s' = (lookup s)(key \<mapsto>
                  json_Marshal \<lparr>NAT = True, lastSeen = timestamp_now env s1\<rparr>)
            \<and> counter s' (d @ ''.left'') = counter s (d @ ''.left'')
            \<and> counter s' ''total.left'' = counter s ''total.left''
            \<and> counter s' ''total.count'' = counter s ''total.count'')"
proof -
  note names = dot_free_names [OF dotfree]
  have l: "lookup s1 = lookup s"
    by (rule ephemeralConnection_frame(2) [OF probe])
  have c: "counter s1 = counter s"
    by (rule ephemeralConnection_frame(3) [OF probe])
  have sweep: "liveliness_entry env (key, val) s =
      Returned (storeSeenNode key \<lparr>NAT = True, lastSeen = timestamp_now env s1\<rparr> s1)"
    using liveliness_entry_seen [OF dotfree addr probe] swept by simp
  have nz: "json_Unmarshal v zero_SeenNode \<noteq> zero_SeenNode"
    by (rule NAT_not_zero [OF stored(2)])
  have walk: "crawl_peer env key s =
      Returned (mux_Unlock (storeSeenNode key \<lparr>NAT = True, lastSeen = timestamp_now env s1\<rparr>
        (emit (Get key) (mux_Lock s1))))"
    unfolding crawl_peer_eq [OF addr probe] stored(1)
    using crawl_update_seen [OF nz] stored(2) by simp
  have c2: "counter (emit (Get key) (mux_Lock s1)) = counter s"
    by (rule counter_cong) (simp add: l)
  show ?thesis
    unfolding sweep walk
    by (simp add: l c c2 counter_storeSeenNode names getSeenNode_eq)
qed

theorem nat_suspected_survives_witness:
  "(\<exists>s'. liveliness_entry (sim_env refusing_dial never)
             (''QmB'', json_Marshal \<lparr>NAT = True, lastSeen = ''1000''\<rparr>)
             (store_of ''QmB'' \<lparr>NAT = True, lastSeen = ''1000''\<rparr>) = Returned s'
         \<and> lookup s' ''QmB'' = Some (json_Marshal \<lparr>NAT = True, lastSeen = ''1001''\<rparr>)
         \<and> counter s' ''2019-10-25.left'' = 0
         \<and> counter s' ''total.left'' = 0
         \<and> counter s' ''total.count'' = 1)
   \<and> (\<exists>s'. crawl_peer (sim_env refusing_dial never) ''QmB''
             (store_of ''QmB'' \<lparr>NAT = True, lastSeen = ''1000''\<rparr>) = Returned s'
         \<and> lookup s' ''QmB'' = Some (json_Marshal \<lparr>NAT = True, lastSeen = ''1001''\<rparr>)
         \<and> counter s' ''2019-10-25.left'' = 0
         \<and> counter s' ''total.left'' = 0
         \<and> counter s' ''total.count'' = 1)"
proof -
  let ?E = "sim_env refusing_dial never"
  let ?v = "json_Marshal \<lparr>NAT = True, lastSeen = ''1000''\<rparr>"
  let ?S = "store_of ''QmB'' \<lparr>NAT = True, lastSeen = ''1000''\<rparr>"
  let ?S1 = "?S\<lparr>trace := [Connect ''/p2p/QmB'' 5000000000]\<rparr>"
  have h1: "CHR ''.'' \<notin> set ''QmB''" by simp
  have h2: "NewMultiaddr ?E (''/p2p/'' @ ''QmB'') = None"
    by (simp add: NewMultiaddr_def sim_env_def)
  have h3: "ephemeralConnection ?E (AddrInfoFromP2pAddr ?E (''/p2p/'' @ ''QmB'')) ?S
              = Inr (Some ''connection refused'', ?S1)"
    by (simp add: ephemeralConnection_def AddrInfoFromP2pAddr_def host_Connect_def sim_env_def
        refusing_dial_def errString_def Second_def emit_def store_of_def)
  have h4: "NAT (json_Unmarshal ?v zero_SeenNode)" by simp
  have h5: "lookup ?S ''QmB'' = Some ?v"
    by (simp add: lookup_def store_of_def)
  have ts: "timestamp_now ?E ?S1 = ''1001''"
    by (simp add: timestamp_now_def sim_env_def now_def FormatInt_def digits10.simps)
  have c0: "counter ?S ''2019-10-25.left'' = 0" "counter ?S ''total.left'' = 0"
    "counter ?S ''total.count'' = 1"
    by (simp_all add: counter_def lookup_def store_of_def)
  from nat_suspected_survives [OF h1 h2 h3 h4 h5 h4, of "''2019-10-25''"]
  show ?thesis
    unfolding ts using c0 by auto
qed

subsection \<open>New peers found by the walk\<close>

text \<open>
  C6. A candidate of the walk (a dot-free identifier whose address parses) has no entry
  in the store. Then the candidate's turn returns after these calls, made under the
  lock: \<open>storeSeenNode\<close> of a record whose \<open>NAT\<close> says whether the probe failed and
  whose \<open>lastSeen\<close> is the time read after the probe, \<open>updateCount(<today>.count, true)\<close>
  and \<open>updateCount(total.count, true)\<close>. So the record is in the store, and
  \<open><today>.count\<close> and \<open>total.count\<close> are each one higher; \<open>today\<close> is the date
  read after the record is stored. Moreover, on an empty
  store, a walk that is handed the candidates \<open>[A, B]\<close>, with every dial of \<open>A\<close>
  succeeding and every dial of \<open>B\<close> failing on one and the same day, returns with a
  store of exactly four keys: \<open>A\<close> with \<open>NAT = false\<close>, \<open>B\<close> with \<open>NAT = true\<close>, and
  the counters \<open><today>.count\<close> and \<open>total.count\<close>, both equal to 2.
\<close>

theorem walk_creates_new_peers:
  assumes dotfree: "CHR ''.'' \<notin> set pID"
    and day: "today \<noteq> ''total''"
    and addr: "NewMultiaddr env (''/p2p/'' @ pID) = None"
    and probe: "ephemeralConnection env (AddrInfoFromP2pAddr env (''/p2p/'' @ pID)) s
                  = Inr (e, s1)"
    and absent: "lookup s pID = None"
    and today: "date env (now s1 + 3) = today"
    and empty: "db s0 = []"
    and found: "closest env0 (now s0) key (timeClosestPeers env0 * Second) = Some [A, B]"
    and distinct: "A \<noteq> B"
    and dotfreeA: "CHR ''.'' \<notin> set A" and dotfreeB: "CHR ''.'' \<notin> set B"
    and addrA: "NewMultiaddr env0 (''/p2p/'' @ A) = None"
    and addrB: "NewMultiaddr env0 (''/p2p/'' @ B) = None"
    and infoA: "addrinfo_ok env0 (''/p2p/'' @ A)"
    and infoB: "addrinfo_ok env0 (''/p2p/'' @ B)"
    and reachableA: "\<forall>k t. dial env0 k (''/p2p/'' @ A) t = None"
    and unreachableB: "\<forall>k t. dial env0 k (''/p2p/'' @ B) t \<noteq> None"
    and today0: "\<forall>k. date env0 k = today0"
    and day0: "today0 \<noteq> ''total''"
  shows "(\<exists>s'. crawl_peer env pID s = Returned s'
            \<and> s' = mux_Unlock (updateCount ''total.count'' True
                  (updateCount (today @ ''.count'') True
                    (storeSeenNode pID
                      \<lparr>NAT = (e \<noteq> None), lastSeen = timestamp_now env s1\<rparr>
                      (snd (getSeenNode pID (mux_Lock s1))))))
            \<and> lookup s' pID = Some (json_Marshal
                  \<lparr>NAT = (e \<noteq> None), lastSeen = timestamp_now env s1\<rparr>)
            \<and> counter s' (today @ ''.count'') = counter s (today @ ''.count'') + 1
            \<and> counter s' ''total.count'' = counter s ''total.count'' + 1)
       \<and> (\<exists>s'. crawlFromKey env0 key s0 = Some (Returned s')
            \<and> dom (lookup s') = {A, B, today0 @ ''.count'', ''total.count''}
            \<and> (\<exists>seenA. lookup s' A = Some (json_Marshal \<lparr>NAT = False, lastSeen = seenA\<rparr>))
            \<and> (\<exists>seenB. lookup s' B = Some (json_Marshal \<lparr>NAT = True, lastSeen = seenB\<rparr>))
            \<and> counter s' (today0 @ ''.count'') = 2
            \<and> counter s' ''total.count'' = 2)"
proof
  have stored: "(case lookup s pID of None \<Rightarrow> zero_SeenNode
                   | Some b \<Rightarrow> json_Unmarshal b zero_SeenNode) = zero_SeenNode"
    by (simp add: absent)
  obtain s' where s': "crawl_peer env pID s = Returned s'"
    and run: "s' = mux_Unlock (updateCount ''total.count'' True
                  (updateCount (today @ ''.count'') True
                    (storeSeenNode pID
                      \<lparr>NAT = (e \<noteq> None), lastSeen = timestamp_now env s1\<rparr>
                      (snd (getSeenNode pID (mux_Lock s1))))))"
    and l: "lookup s' =
      (lookup s)(pID \<mapsto> json_Marshal \<lparr>NAT = (e \<noteq> None), lastSeen = timestamp_now env s1\<rparr>,
        today @ ''.count'' \<mapsto> Json (JNumber (counter s (today @ ''.count'') + 1)),
        ''total.count'' \<mapsto> Json (JNumber (counter s ''total.count'' + 1)))"
    using crawl_peer_new [OF dotfree day addr probe stored today] by blast
  note names = dot_free_names [OF dotfree]
  show "\<exists>s'. crawl_peer env pID s = Returned s'
          \<and> s' = mux_Unlock (updateCount ''total.count'' True
                  (updateCount (today @ ''.count'') True
                    (storeSeenNode pID
                      \<lparr>NAT = (e \<noteq> None), lastSeen = timestamp_now env s1\<rparr>
                      (snd (getSeenNode pID (mux_Lock s1))))))
          \<and> lookup s' pID = Some (json_Marshal
                \<lparr>NAT = (e \<noteq> None), lastSeen = timestamp_now env s1\<rparr>)
          \<and> counter s' (today @ ''.count'') = counter s (today @ ''.count'') + 1
          \<and> counter s' ''total.count'' = counter s ''total.count'' + 1"
    using s' run [symmetric] day by (simp add: l counter_def names day_count_total_count)
next
  let ?t = "timeClosestPeers env0 * Second"
  let ?s1 = "emit (ClosestPeers key ?t) s0"
  note namesA = dot_free_names [OF dotfreeA]
  note namesB = dot_free_names [OF dotfreeB]
  have l1: "lookup s0 = Map.empty"
    by (rule lookup_empty [OF empty])
  have c1: "counter ?s1 c = 0" for c
    by (simp add: counter_def l1)
  \<comment> \<open>candidate A\<close>
  obtain a1 where probeA:
    "ephemeralConnection env0 (AddrInfoFromP2pAddr env0 (''/p2p/'' @ A)) ?s1 = Inr (None, a1)"
    using probe_reachable [OF infoA reachableA] by blast
  have storedA: "(case lookup ?s1 A of None \<Rightarrow> zero_SeenNode
                    | Some b \<Rightarrow> json_Unmarshal b zero_SeenNode) = zero_SeenNode"
    by (simp add: l1)
  have dateA: "date env0 (now a1 + 3) = today0"
    using today0 by simp
  obtain sA where sA: "crawl_peer env0 A ?s1 = Returned sA"
    and lA: "lookup sA =
      (lookup ?s1)(A \<mapsto> json_Marshal \<lparr>NAT = (None \<noteq> (None::error)),
                                         lastSeen = timestamp_now env0 a1\<rparr>,
        today0 @ ''.count'' \<mapsto> Json (JNumber (counter ?s1 (today0 @ ''.count'') + 1)),
        ''total.count'' \<mapsto> Json (JNumber (counter ?s1 ''total.count'' + 1)))"
    using crawl_peer_new [OF dotfreeA day0 addrA probeA storedA dateA] by blast
  \<comment> \<open>candidate B\<close>
  obtain eB b1 where probeB:
    "ephemeralConnection env0 (AddrInfoFromP2pAddr env0 (''/p2p/'' @ B)) sA = Inr (Some eB, b1)"
    using probe_unreachable [OF infoB unreachableB] by blast
  have absentB: "lookup sA B = None"
    using distinct by (simp add: lA l1 namesB)
  have storedB: "(case lookup sA B of None \<Rightarrow> zero_SeenNode
                    | Some b \<Rightarrow> json_Unmarshal b zero_SeenNode) = zero_SeenNode"
    by (simp add: absentB)
  have dateB: "date env0 (now b1 + 3) = today0"
    using today0 by simp
  obtain sB where sB: "crawl_peer env0 B sA = Returned sB"
    and lB: "lookup sB =
      (lookup sA)(B \<mapsto> json_Marshal \<lparr>NAT = (Some eB \<noteq> None),
                                       lastSeen = timestamp_now env0 b1\<rparr>,
        today0 @ ''.count'' \<mapsto> Json (JNumber (counter sA (today0 @ ''.count'') + 1)),
        ''total.count'' \<mapsto> Json (JNumber (counter sA ''total.count'' + 1)))"
    using crawl_peer_new [OF dotfreeB day0 addrB probeB storedB dateB] by blast
  have cA: "counter sA (today0 @ ''.count'') = 1" "counter sA ''total.count'' = 1"
    using day0 by (simp_all add: counter_lookup_eq [OF lA] c1 day_count_total_count)
  have run: "crawlFromKey env0 key s0 = Some (Returned sB)"
    using found crawl_peers_two [OF sA sB] by (simp add: crawlFromKey_def Let_def)
  have domB: "dom (lookup sB) = {A, B, today0 @ ''.count'', ''total.count''}"
    by (auto simp add: lB lA l1)
  have recA: "lookup sB A = Some (json_Marshal \<lparr>NAT = False, lastSeen = timestamp_now env0 a1\<rparr>)"
    using distinct by (simp add: lB lA l1 namesA)
  have recB: "lookup sB B = Some (json_Marshal \<lparr>NAT = True, lastSeen = timestamp_now env0 b1\<rparr>)"
    by (simp add: lB namesB)
  have cB: "counter sB (today0 @ ''.count'') = 2" "counter sB ''total.count'' = 2"
    using day0 by (simp_all add: counter_lookup_eq [OF lB] cA day_count_total_count)
  show "\<exists>s'. crawlFromKey env0 key s0 = Some (Returned s')
          \<and> dom (lookup s') = {A, B, today0 @ ''.count'', ''total.count''}
          \<and> (\<exists>seenA. lookup s' A = Some (json_Marshal \<lparr>NAT = False, lastSeen = seenA\<rparr>))
          \<and> (\<exists>seenB. lookup s' B = Some (json_Marshal \<lparr>NAT = True, lastSeen = seenB\<rparr>))
          \<and> counter s' (today0 @ ''.count'') = 2
          \<and> counter s' ''total.count'' = 2"
    using run domB recA recB cB by blast
qed

theorem walk_creates_new_peers_witness:
  "(\<exists>s'. crawl_peer (sim_env refusing_dial never) ''QmB'' empty_store = Returned s'
        \<and> lookup s' ''QmB'' = Some (json_Marshal \<lparr>NAT = True, lastSeen = ''1001''\<rparr>)
        \<and> counter s' ''2019-10-25.count'' = 1
        \<and> counter s' ''total.count'' = 1)
   \<and> (\<exists>s'. crawlFromKey (sim_env refusing_dial never) ''QmT'' empty_store = Some (Returned s')
        \<and> dom (lookup s') = {''QmA'', ''QmB'', ''2019-10-25.count'', ''total.count''}
        \<and> (\<exists>seenA. lookup s' ''QmA'' = Some (json_Marshal \<lparr>NAT = False, lastSeen = seenA\<rparr>))
        \<and> (\<exists>seenB. lookup s' ''QmB'' = Some (json_Marshal \<lparr>NAT = True, lastSeen = seenB\<rparr>))
        \<and> counter s' ''2019-10-25.count'' = 2
        \<and> counter s' ''total.count'' = 2)"
proof -
  let ?E = "sim_env refusing_dial never"
  let ?S1 = "empty_store\<lparr>trace := [Connect ''/p2p/QmB'' 5000000000]\<rparr>"
  have g1: "CHR ''.'' \<notin> set ''QmB''" by simp
  have g2: "''2019-10-25'' \<noteq> ''total''" by simp
  have g3: "NewMultiaddr ?E (''/p2p/'' @ ''QmB'') = None"
    by (simp add: NewMultiaddr_def sim_env_def)
  have g4: "ephemeralConnection ?E (AddrInfoFromP2pAddr ?E (''/p2p/'' @ ''QmB'')) empty_store
              = Inr (Some ''connection refused'', ?S1)"
    by (simp add: ephemeralConnection_def AddrInfoFromP2pAddr_def host_Connect_def sim_env_def
        refusing_dial_def errString_def Second_def emit_def empty_store_def)
  have g5: "lookup empty_store ''QmB'' = None"
    by (simp add: lookup_def empty_store_def)
  have g6: "date ?E (now ?S1 + 3) = ''2019-10-25''"
    by (simp add: sim_env_def)
  have h1: "db empty_store = []" by (simp add: empty_store_def)
  have h2: "closest ?E (now empty_store) ''QmT'' (timeClosestPeers ?E * Second)
              = Some [''QmA'', ''QmB'']"
    by (simp add: sim_env_def)
  have h3: "''QmA'' \<noteq> ''QmB''" by simp
  have h4: "CHR ''.'' \<notin> set ''QmA''" by simp
  have h5: "NewMultiaddr ?E (''/p2p/'' @ ''QmA'') = None"
    by (simp add: NewMultiaddr_def sim_env_def)
  have h6: "addrinfo_ok ?E (''/p2p/'' @ ''QmA'')" "addrinfo_ok ?E (''/p2p/'' @ ''QmB'')"
    by (simp_all add: sim_env_def)
  have h7: "\<forall>k t. dial ?E k (''/p2p/'' @ ''QmA'') t = None"
    by (simp add: sim_env_def refusing_dial_def)
  have h8: "\<forall>k t. dial ?E k (''/p2p/'' @ ''QmB'') t \<noteq> None"
    by (simp add: sim_env_def refusing_dial_def)
  have h9: "\<forall>k. date ?E k = ''2019-10-25''"
    by (simp add: sim_env_def)
  have ts: "timestamp_now ?E ?S1 = ''1001''"
    by (simp add: timestamp_now_def sim_env_def now_def FormatInt_def digits10.simps empty_store_def)
  have c0: "counter empty_store c = 0" for c
    by (simp add: counter_def lookup_def empty_store_def)
  from walk_creates_new_peers [OF g1 g2 g3 g4 g5 g6 h1 h2 h3 h4 g1 h5 g3 h6 h7 h8 h9 g2]
  show ?thesis
    unfolding ts by (simp add: c0)
qed

subsection \<open>The zero value as the test for a new peer\<close>

text \<open>
  C10. The walk takes a candidate for new exactly when the record it looked up equals
  the zero value \<open>{NAT: false, lastSeen: ""}\<close>: that is when \<open>total.count\<close> goes up by
  one (the other branches lower it or leave it). So when the candidate is in the store
  and its bytes decode to the zero value, its turn stores it again as a new record and
  raises \<open><today>.count\<close> and \<open>total.count\<close> once more. No date prints as \<open>total\<close>.
\<close>

theorem zero_value_absence_test:
  assumes dotfree: "CHR ''.'' \<notin> set pID"
    and dates: "\<forall>k. date env k \<noteq> ''total''"
    and addr: "NewMultiaddr env (''/p2p/'' @ pID) = None"
    and probe: "ephemeralConnection env (AddrInfoFromP2pAddr env (''/p2p/'' @ pID)) s
                  = Inr (e, s1)"
    and stored: "lookup s pID = Some v"
    and zero: "json_Unmarshal v zero_SeenNode = zero_SeenNode"
    and today: "date env (now s1 + 3) = today"
  shows "((counter (crawl_update env pID err ts looked_up t) ''total.count''
             = counter t ''total.count'' + 1) = (looked_up = zero_SeenNode))
       \<and> (\<exists>s'. crawl_peer env pID s = Returned s'
            \<and> s' = mux_Unlock (updateCount ''total.count'' True
                  (updateCount (today @ ''.count'') True
                    (storeSeenNode pID
                      \<lparr>NAT = (e \<noteq> None), lastSeen = timestamp_now env s1\<rparr>
                      (snd (getSeenNode pID (mux_Lock s1))))))
            \<and> lookup s' pID = Some (json_Marshal
                  \<lparr>NAT = (e \<noteq> None), lastSeen = timestamp_now env s1\<rparr>)
            \<and> counter s' (today @ ''.count'') = counter s (today @ ''.count'') + 1
            \<and> counter s' ''total.count'' = counter s ''total.count'' + 1)"
proof
  note names = dot_free_names [OF dotfree]
  show "(counter (crawl_update env pID err ts looked_up t) ''total.count''
           = counter t ''total.count'' + 1) = (looked_up = zero_SeenNode)"
  proof -
    have d1: "date env k \<noteq> ''total''" for k
      using dates by simp
    have d2: "''total'' \<noteq> date env k" for k
      using d1 [of k] by (rule not_sym)
    show ?thesis
      by (simp add: crawl_update_def Let_def currentDate_def counter_storeSeenNode
          counter_db_Delete names day_count_total_count day_left_not_count d1 d2)
  qed
next
  have day: "today \<noteq> ''total''"
    using dates today by auto
  have z: "(case lookup s pID of None \<Rightarrow> zero_SeenNode
              | Some b \<Rightarrow> json_Unmarshal b zero_SeenNode) = zero_SeenNode"
    by (simp add: stored zero)
  obtain s' where s': "crawl_peer env pID s = Returned s'"
    and run: "s' = mux_Unlock (updateCount ''total.count'' True
                  (updateCount (today @ ''.count'') True
                    (storeSeenNode pID
                      \<lparr>NAT = (e \<noteq> None), lastSeen = timestamp_now env s1\<rparr>
                      (snd (getSeenNode pID (mux_Lock s1))))))"
    and l: "lookup s' =
      (lookup s)(pID \<mapsto> json_Marshal \<lparr>NAT = (e \<noteq> None), lastSeen = timestamp_now env s1\<rparr>,
        today @ ''.count'' \<mapsto> Json (JNumber (counter s (today @ ''.count'') + 1)),
        ''total.count'' \<mapsto> Json (JNumber (counter s ''total.count'' + 1)))"
    using crawl_peer_new [OF dotfree day addr probe z today] by blast
  note names = dot_free_names [OF dotfree]
  show "\<exists>s'. crawl_peer env pID s = Returned s'
          \<and> s' = mux_Unlock (updateCount ''total.count'' True
                  (updateCount (today @ ''.count'') True
                    (storeSeenNode pID
                      \<lparr>NAT = (e \<noteq> None), lastSeen = timestamp_now env s1\<rparr>
                      (snd (getSeenNode pID (mux_Lock s1))))))
          \<and> lookup s' pID = Some (json_Marshal
                \<lparr>NAT = (e \<noteq> None), lastSeen = timestamp_now env s1\<rparr>)
          \<and> counter s' (today @ ''.count'') = counter s (today @ ''.count'') + 1
          \<and> counter s' ''total.count'' = counter s ''total.count'' + 1"
    using s' run [symmetric] day by (simp add: l counter_def names day_count_total_count)
qed

theorem zero_value_absence_test_witness:
  "((counter (crawl_update (sim_env refusing_dial never) ''QmA'' None ''1001''
               \<lparr>NAT = False, lastSeen = ''1000''\<rparr> empty_store) ''total.count''
       = counter empty_store ''total.count'' + 1)
     = (\<lparr>NAT = False, lastSeen = ''1000''\<rparr> = zero_SeenNode))
   \<and> (\<exists>s'. crawl_peer (sim_env refusing_dial never) ''QmA''
             (store_of ''QmA'' \<lparr>NAT = False, lastSeen = ''1000''\<rparr>) = Returned s'
        \<and> lookup s' ''QmA'' = Some (json_Marshal \<lparr>NAT = False, lastSeen = ''1001''\<rparr>)
        \<and> counter s' ''2019-10-25.count'' = 1
        \<and> counter s' ''total.count'' = 2)"
proof -
  let ?E = "sim_env refusing_dial never"
  let ?v = "json_Marshal \<lparr>NAT = False, lastSeen = ''1000''\<rparr>"
  let ?S = "store_of ''QmA'' \<lparr>NAT = False, lastSeen = ''1000''\<rparr>"
  let ?S1 = "?S\<lparr>trace := [Connect ''/p2p/QmA'' 5000000000]\<rparr>"
  have h1: "CHR ''.'' \<notin> set ''QmA''" by simp
  have h2: "\<forall>k. date ?E k \<noteq> ''total''" by (simp add: sim_env_def)
  have h3: "NewMultiaddr ?E (''/p2p/'' @ ''QmA'') = None"
    by (simp add: NewMultiaddr_def sim_env_def)
  have h4: "ephemeralConnection ?E (AddrInfoFromP2pAddr ?E (''/p2p/'' @ ''QmA'')) ?S
              = Inr (None, ?S1)"
    by (simp add: ephemeralConnection_def AddrInfoFromP2pAddr_def host_Connect_def sim_env_def
        refusing_dial_def errString_def Second_def emit_def store_of_def)
  have h5: "lookup ?S ''QmA'' = Some ?v"
    by (simp add: lookup_def store_of_def)
  have h6: "json_Unmarshal ?v zero_SeenNode = zero_SeenNode"
    by (simp add: json_Marshal_def names_NAT_def zero_SeenNode_def)
  have h7: "date ?E (now ?S1 + 3) = ''2019-10-25''"
    by (simp add: sim_env_def)
  have ts: "timestamp_now ?E ?S1 = ''1001''"
    by (simp add: timestamp_now_def sim_env_def now_def FormatInt_def digits10.simps store_of_def)
  have c0: "counter ?S ''2019-10-25.count'' = 0" "counter ?S ''total.count'' = 1"
    by (simp_all add: counter_def lookup_def store_of_def)
  from zero_value_absence_test [OF h1 h2 h3 h4 h5 h6 h7, of None "''1001''"
      "\<lparr>NAT = False, lastSeen = ''1000''\<rparr>" empty_store]
  show ?thesis
    unfolding ts using c0 by auto
qed

subsection \<open>Departures seen by the walk\<close>

text \<open>
  C2, as the code runs it. The store knows \<open>QmB\<close> as reachable (\<open>NAT = false\<close>) and
  counts one peer; the walk is handed \<open>QmB\<close>, which refuses the connection. The record
  looked up decodes to the zero value, so the walk stores \<open>QmB\<close> again as a new peer
  behind NAT and raises both count counters; no left-counter moves and the record stays.
  And where the departure branch itself is entered (a looked-up record with a
  \<open>lastSeen\<close>), it lowers \<open>total.left\<close> by one instead of raising it.
\<close>

theorem walk_departure_miscounted:
  "(let s' = state_of (crawl_peer (sim_env refusing_dial never) ''QmB''
                (store_of ''QmB'' \<lparr>NAT = False, lastSeen = ''1000''\<rparr>))
    in lookup s' ''QmB'' = Some (json_Marshal \<lparr>NAT = True, lastSeen = ''1001''\<rparr>)
       \<and> counter s' ''total.left'' = 0
       \<and> counter s' ''2019-10-25.left'' = 0
       \<and> counter s' ''total.count'' = 2
       \<and> counter s' ''2019-10-25.count'' = 1)
   \<and> (let t' = crawl_update (sim_env refusing_dial never) ''QmB'' (Some ''connection refused'')
                ''1001'' \<lparr>NAT = False, lastSeen = ''1000''\<rparr>
                (store_of ''QmB'' \<lparr>NAT = False, lastSeen = ''1000''\<rparr>)
       in lookup t' ''QmB'' = None
          \<and> counter t' ''total.left'' = - 1
          \<and> counter t' ''2019-10-25.left'' = 1
          \<and> counter t' ''total.count'' = 0)"
proof -
  let ?E = "sim_env refusing_dial never"
  let ?S = "store_of ''QmB'' \<lparr>NAT = False, lastSeen = ''1000''\<rparr>"
  let ?S1 = "?S\<lparr>trace := [Connect ''/p2p/QmB'' 5000000000]\<rparr>"
  have c0: "counter ?S ''total.left'' = 0" "counter ?S ''2019-10-25.left'' = 0"
    "counter ?S ''total.count'' = 1" "counter ?S ''2019-10-25.count'' = 0"
    by (simp_all add: counter_def lookup_def store_of_def)
  have h1: "CHR ''.'' \<notin> set ''QmB''" by simp
  have h2: "''2019-10-25'' \<noteq> ''total''" by simp
  have h3: "NewMultiaddr ?E (''/p2p/'' @ ''QmB'') = None"
    by (simp add: NewMultiaddr_def sim_env_def)
  have h4: "ephemeralConnection ?E (AddrInfoFromP2pAddr ?E (''/p2p/'' @ ''QmB'')) ?S
              = Inr (Some ''connection refused'', ?S1)"
    by (simp add: ephemeralConnection_def AddrInfoFromP2pAddr_def host_Connect_def sim_env_def
        refusing_dial_def errString_def Second_def emit_def store_of_def)
  have h5: "(case lookup ?S ''QmB'' of None \<Rightarrow> zero_SeenNode
              | Some b \<Rightarrow> json_Unmarshal b zero_SeenNode) = zero_SeenNode"
    by (simp add: lookup_def store_of_def json_Marshal_def names_NAT_def zero_SeenNode_def)
  have h6: "date ?E (now ?S1 + 3) = ''2019-10-25''"
    by (simp add: sim_env_def)
  have ts: "timestamp_now ?E ?S1 = ''1001''"
    by (simp add: timestamp_now_def sim_env_def now_def FormatInt_def digits10.simps store_of_def)
  obtain s' where s': "crawl_peer ?E ''QmB'' ?S = Returned s'"
    and l: "lookup s' =
      (lookup ?S)(''QmB'' \<mapsto> json_Marshal \<lparr>NAT = True, lastSeen = ''1001''\<rparr>,
        ''2019-10-25.count'' \<mapsto> Json (JNumber (counter ?S ''2019-10-25.count'' + 1)),
        ''total.count'' \<mapsto> Json (JNumber (counter ?S ''total.count'' + 1)))"
    using crawl_peer_new [OF h1 h2 h3 h4 h5 h6] unfolding ts by auto
  have walk: "lookup s' ''QmB'' = Some (json_Marshal \<lparr>NAT = True, lastSeen = ''1001''\<rparr>)
       \<and> counter s' ''total.left'' = 0
       \<and> counter s' ''2019-10-25.left'' = 0
       \<and> counter s' ''total.count'' = 2
       \<and> counter s' ''2019-10-25.count'' = 1"
    using c0 by (simp add: counter_lookup_eq [OF l] l) (simp add: counter_def)
  have nz: "\<lparr>NAT = False, lastSeen = ''1000''\<rparr> \<noteq> zero_SeenNode"
    by (simp add: zero_SeenNode_def)
  have branch: "crawl_update ?E ''QmB'' (Some ''connection refused'') ''1001''
        \<lparr>NAT = False, lastSeen = ''1000''\<rparr> ?S =
      db_Delete ''QmB'' (updateCount ''total.left'' False (updateCount ''total.count'' False
        (updateCount (currentDate ?E ?S @ ''.left'') True ?S)))"
    by (rule crawl_update_left [OF nz]) simp_all
  have day: "currentDate ?E ?S = ''2019-10-25''"
    by (simp add: currentDate_def sim_env_def)
  show ?thesis
    unfolding s' branch day using walk c0 by (simp add: counter_db_Delete)
qed

subsection \<open>Storing and looking up\<close>

text \<open>
  C3, as the code runs it. The record \<open>{NAT: false, lastSeen: "1000"}\<close> is stored under
  \<open>QmA\<close>. Looking it up, through \<open>getSeenNode\<close> or by decoding the stored bytes as
  the sweep does, yields \<open>{NAT: false, lastSeen: ""}\<close>: no stored bytes decode to a
  \<open>lastSeen\<close> other than the empty string.
\<close>

theorem lastSeen_lost_on_lookup:
  "fst (fst (getSeenNode ''QmA''
       (storeSeenNode ''QmA'' \<lparr>NAT = False, lastSeen = ''1000''\<rparr> empty_store)))
     = \<lparr>NAT = False, lastSeen = ''''\<rparr>
   \<and> json_Unmarshal (json_Marshal \<lparr>NAT = False, lastSeen = ''1000''\<rparr>) zero_SeenNode
     = \<lparr>NAT = False, lastSeen = ''''\<rparr>
   \<and> (\<forall>b. lastSeen (json_Unmarshal b zero_SeenNode) = '''')"
  by (simp add: getSeenNode_eq json_Marshal_def names_NAT_def zero_SeenNode_def)

subsection \<open>Cancellation of the sweep\<close>

lemma liveliness_returns_iff:
  "liveliness env n s = Some (Returned t) \<longleftrightarrow> cancelled env (now s) \<and> t = s"
  by (auto simp: liveliness_def split: outcome.splits)

lemma sweep_one_reachable:
  assumes "db s = db (store_of ''QmA'' \<lparr>NAT = False, lastSeen = seen\<rparr>)"
  shows "sweep_pass (sim_env refusing_dial c) s =
     Returned (storeSeenNode ''QmA''
        \<lparr>NAT = False, lastSeen = timestamp_now (sim_env refusing_dial c)
            (emit (Connect ''/p2p/QmA'' 5000000000) (emit NewIterator s))\<rparr>
        (emit (Connect ''/p2p/QmA'' 5000000000) (emit NewIterator s)))"
proof -
  let ?E = "sim_env refusing_dial c"
  let ?s0 = "emit NewIterator s"
  let ?s1 = "emit (Connect ''/p2p/QmA'' 5000000000) ?s0"
  have h1: "CHR ''.'' \<notin> set ''QmA''" by simp
  have h2: "NewMultiaddr ?E (''/p2p/'' @ ''QmA'') = None"
    by (simp add: NewMultiaddr_def sim_env_def)
  have h3: "ephemeralConnection ?E (AddrInfoFromP2pAddr ?E (''/p2p/'' @ ''QmA'')) ?s0
              = Inr (None, ?s1)"
    by (simp add: ephemeralConnection_def AddrInfoFromP2pAddr_def host_Connect_def sim_env_def
        refusing_dial_def errString_def Second_def)
  have first: "liveliness_entry ?E (''QmA'', json_Marshal \<lparr>NAT = False, lastSeen = seen\<rparr>) ?s0
      = Returned (storeSeenNode ''QmA'' \<lparr>NAT = False, lastSeen = timestamp_now ?E ?s1\<rparr> ?s1)"
    using liveliness_entry_seen [OF h1 h2 h3] by simp
  have second: "liveliness_entry ?E (''total.count'', v) t = Returned t" for v t
    by (simp add: liveliness_entry_def Split_single_Suc)
  show ?thesis
    using assms
    by (simp add: sweep_pass_def store_of_def first second)
qed

lemma db_store_one_reachable:
  assumes "db s = db (store_of ''QmA'' \<lparr>NAT = False, lastSeen = seen\<rparr>)"
  shows "db (storeSeenNode ''QmA'' \<lparr>NAT = False, lastSeen = ts\<rparr> (emit e (emit e' s))) =
           db (store_of ''QmA'' \<lparr>NAT = False, lastSeen = ts\<rparr>)"
  using assms by (simp add: storeSeenNode_def db_Put_def store_of_def)

text \<open>
  C7, as the code runs it. \<open>liveliness\<close> returns only from the check at its entry:
  whatever the budget, it returns exactly when the signal is already there when it
  starts. A store knows the reachable peer \<open>QmA\<close>; the signal is absent at the start and
  observable from the first call on. After the first pass the signal is observable, yet
  the second pass runs and probes \<open>QmA\<close> again, and the sweep is still running when two
  passes are done.
\<close>

theorem sweep_ignores_cancellation:
  "(\<forall>env n s t. (liveliness env n s = Some (Returned t)) = (cancelled env (now s) \<and> t = s))
   \<and> \<not> cancelled (sim_env refusing_dial after_start)
          (now (store_of ''QmA'' \<lparr>NAT = False, lastSeen = ''1000''\<rparr>))
   \<and> cancelled (sim_env refusing_dial after_start)
        (now (state_of (Alive (sim_env refusing_dial after_start) 1
               (store_of ''QmA'' \<lparr>NAT = False, lastSeen = ''1000''\<rparr>))))
   \<and> trace (state_of (Alive (sim_env refusing_dial after_start) 2
               (store_of ''QmA'' \<lparr>NAT = False, lastSeen = ''1000''\<rparr>))) =
       trace (state_of (Alive (sim_env refusing_dial after_start) 1
               (store_of ''QmA'' \<lparr>NAT = False, lastSeen = ''1000''\<rparr>))) @
       [NewIterator, Connect ''/p2p/QmA'' 5000000000,
        Put ''QmA'' (json_Marshal \<lparr>NAT = False, lastSeen = ''1005''\<rparr>)]
   \<and> liveliness (sim_env refusing_dial after_start) 2
        (store_of ''QmA'' \<lparr>NAT = False, lastSeen = ''1000''\<rparr>) = None"
proof -
  let ?E = "sim_env refusing_dial after_start"
  let ?S = "store_of ''QmA'' \<lparr>NAT = False, lastSeen = ''1000''\<rparr>"
  let ?a = "emit (Connect ''/p2p/QmA'' 5000000000) (emit NewIterator ?S)"
  let ?s1 = "storeSeenNode ''QmA'' \<lparr>NAT = False, lastSeen = timestamp_now ?E ?a\<rparr> ?a"
  let ?b = "emit (Connect ''/p2p/QmA'' 5000000000) (emit NewIterator ?s1)"
  let ?s2 = "storeSeenNode ''QmA'' \<lparr>NAT = False, lastSeen = timestamp_now ?E ?b\<rparr> ?b"
  have p1: "sweep_pass ?E ?S = Returned ?s1"
    by (rule sweep_one_reachable) simp
  have d1: "db ?s1 = db (store_of ''QmA'' \<lparr>NAT = False, lastSeen = timestamp_now ?E ?a\<rparr>)"
    by (rule db_store_one_reachable) simp
  have p2: "sweep_pass ?E ?s1 = Returned ?s2"
    by (rule sweep_one_reachable [OF d1])
  have a1: "Alive ?E 1 ?S = Returned ?s1"
    by (simp add: p1)
  have a2: "Alive ?E 2 ?S = Returned ?s2"
    by (simp add: eval_nat_numeral p1 p2)
  have n0: "now ?S = 0"
    by (simp add: now_def store_of_def)
  have tb: "timestamp_now ?E ?b = ''1005''"
    by (simp add: timestamp_now_def sim_env_def n0 FormatInt_def digits10.simps)
  have c0: "\<not> cancelled ?E (now ?S)"
    by (simp add: n0 sim_env_def after_start_def)
  have c1: "cancelled ?E (now ?s1)"
    by (simp add: sim_env_def after_start_def)
  have run: "liveliness ?E 2 ?S = None"
    by (simp add: liveliness_def a2 c0)
  have grow: "trace ?s2 = trace ?s1 @ [NewIterator, Connect ''/p2p/QmA'' 5000000000,
      Put ''QmA'' (json_Marshal \<lparr>NAT = False, lastSeen = ''1005''\<rparr>)]"
    by (simp add: tb)
  have exits: "\<forall>env n s t. (liveliness env n s = Some (Returned t))
      = (cancelled env (now s) \<and> t = s)"
    by (simp add: liveliness_returns_iff)
  show ?thesis
    unfolding a1 a2 state_of.simps
    using exits c0 c1 grow run by blast
qed

subsection \<open>Peer keys and counter keys\<close>

lemma ephemeralConnection_trace:
  assumes "ephemeralConnection env (Some a) s = Inr (e, s1)"
  shows "\<exists>ts. trace s1 = trace s @ map (Connect a) ts"
proof -
  let ?T = "timeEphemeralConnections env * Second"
  have "trace s1 = trace s @ map (Connect a) [?T]
      \<or> trace s1 = trace s @ map (Connect a) [?T, 4 * timeEphemeralConnections env * Second]"
    using assms
    by (auto simp: ephemeralConnection_def host_Connect_def Let_def split: if_splits)
  then show ?thesis by blast
qed

lemma AddrInfo_cases:
  "AddrInfoFromP2pAddr env p = None \<or> AddrInfoFromP2pAddr env p = Some p"
  by (simp add: AddrInfoFromP2pAddr_def)

lemma spares_probes:
  "CHR ''.'' \<notin> set key \<Longrightarrow> list_all spares_counters (map (Connect (''/p2p/'' @ key)) ts)"
  by (induction ts) simp_all

lemma liveliness_entry_trace:
  "\<exists>new. trace (state_of (liveliness_entry env kv s)) = trace s @ new
         \<and> list_all spares_counters new"
proof (cases "CHR ''.'' \<in> set (fst kv)")
  case True
  then have "liveliness_entry env kv s = Returned s"
    by (simp add: liveliness_entry_def Split_single_Suc)
  then show ?thesis by simp
next
  case False
  obtain key val where kv: "kv = (key, val)" by (cases kv)
  with False have df: "CHR ''.'' \<notin> set key" by simp
  show ?thesis
  proof (cases "NewMultiaddr env (''/p2p/'' @ key)")
    case (Some err)
    then have "liveliness_entry env kv s = Panic err s"
      using df by (simp add: liveliness_entry_def Split_single_Suc kv)
    then show ?thesis by simp
  next
    case None
    show ?thesis
    proof (cases "ephemeralConnection env (AddrInfoFromP2pAddr env (''/p2p/'' @ key)) s")
      case (Inl msg)
      then have "liveliness_entry env kv s = Panic msg s"
        using df None by (simp add: liveliness_entry_def Split_single_Suc kv)
      then show ?thesis by simp
    next
      case (Inr r)
      obtain e s1 where r: "r = (e, s1)" by (cases r)
      have info: "AddrInfoFromP2pAddr env (''/p2p/'' @ key) = Some (''/p2p/'' @ key)"
        using Inr AddrInfo_cases [of env "''/p2p/'' @ key"]
        by (auto simp: ephemeralConnection_def)
      obtain ts where t1: "trace s1 = trace s @ map (Connect (''/p2p/'' @ key)) ts"
        using ephemeralConnection_trace Inr r info by metis
      note probes = spares_probes [OF df, of ts]
      have probe: "ephemeralConnection env (AddrInfoFromP2pAddr env (''/p2p/'' @ key)) s = Inr (e, s1)"
        using Inr r by simp
      show ?thesis
      proof (cases "NAT (json_Unmarshal val zero_SeenNode) \<or> e = None")
        case True
        show ?thesis
          unfolding kv liveliness_entry_seen [OF df None probe True]
          using probes df by (simp add: t1)
      next
        case False
        then obtain x where e: "e = Some x" by auto
        have nat: "NAT (json_Unmarshal val zero_SeenNode) = False" using False by simp
        show ?thesis
          unfolding kv liveliness_entry_left [OF df None probe [unfolded e] nat]
          using probes df by (simp add: t1)
      qed
    qed
  qed
qed

lemma counter_kept_refl [simp]: "counter_kept k s s"
  by (simp add: counter_kept_def)

lemma counter_kept_trans:
  "counter_kept k s s' \<Longrightarrow> counter_kept k s' s'' \<Longrightarrow> counter_kept k s s''"
  by (auto simp: counter_kept_def)

lemma counter_kept_lookup: "lookup s' = lookup s \<Longrightarrow> counter_kept k s s'"
  by (simp add: counter_kept_def)

lemma counter_kept_present:
  "counter_kept k s s' \<Longrightarrow> lookup s k \<noteq> None \<Longrightarrow> lookup s' k \<noteq> None"
  by (auto simp: counter_kept_def split: option.splits)

lemma extends_trans:
  assumes "\<exists>new. trace s' = trace s @ new \<and> list_all P new"
    and "\<exists>new. trace s'' = trace s' @ new \<and> list_all P new"
  shows "\<exists>new. trace s'' = trace s @ new \<and> list_all P new"
proof -
  obtain n1 where n1: "trace s' = trace s @ n1" "list_all P n1" using assms(1) by blast
  obtain n2 where n2: "trace s'' = trace s' @ n2" "list_all P n2" using assms(2) by blast
  have "trace s'' = trace s @ (n1 @ n2)" "list_all P (n1 @ n2)"
    using n1 n2 by simp_all
  then show ?thesis by blast
qed

lemma liveliness_entry_kept:
  assumes dotted: "CHR ''.'' \<in> set k"
  shows "counter_kept k s (state_of (liveliness_entry env kv s))"
proof (cases "CHR ''.'' \<in> set (fst kv)")
  case True
  then have "liveliness_entry env kv s = Returned s"
    by (simp add: liveliness_entry_def Split_single_Suc)
  then show ?thesis by simp
next
  case False
  obtain key val where kv: "kv = (key, val)" by (cases kv)
  with False have df: "CHR ''.'' \<notin> set key" by simp
  have kk: "k \<noteq> key" using df dotted by auto
  show ?thesis
  proof (cases "NewMultiaddr env (''/p2p/'' @ key)")
    case (Some err)
    then have "liveliness_entry env kv s = Panic err s"
      using df by (simp add: liveliness_entry_def Split_single_Suc kv)
    then show ?thesis by simp
  next
    case None
    show ?thesis
    proof (cases "ephemeralConnection env (AddrInfoFromP2pAddr env (''/p2p/'' @ key)) s")
      case (Inl msg)
      then have "liveliness_entry env kv s = Panic msg s"
        using df None by (simp add: liveliness_entry_def Split_single_Suc kv)
      then show ?thesis by simp
    next
      case (Inr r)
      obtain e s1 where r: "r = (e, s1)" by (cases r)
      have probe: "ephemeralConnection env (AddrInfoFromP2pAddr env (''/p2p/'' @ key)) s = Inr (e, s1)"
        using Inr r by simp
      have l: "lookup s1 = lookup s"
        by (rule ephemeralConnection_frame(2) [OF probe])
      show ?thesis
      proof (cases "NAT (json_Unmarshal val zero_SeenNode) \<or> e = None")
        case True
        show ?thesis
          unfolding kv liveliness_entry_seen [OF df None probe True]
          using kk by (simp add: counter_kept_def l)
      next
        case False
        then obtain x where e: "e = Some x" by auto
        have nat: "NAT (json_Unmarshal val zero_SeenNode) = False" using False by simp
        show ?thesis
          unfolding kv liveliness_entry_left [OF df None probe [unfolded e] nat]
          using kk by (simp add: counter_kept_def l)
      qed
    qed
  qed
qed

lemma iterate_trace:
  "\<exists>new. trace (state_of (iterate env kvs s)) = trace s @ new \<and> list_all spares_counters new"
proof (induction kvs arbitrary: s)
  case Nil
  show ?case by simp
next
  case (Cons kv kvs)
  show ?case
  proof (cases "liveliness_entry env kv s")
    case (Returned s')
    have "\<exists>new. trace s' = trace s @ new \<and> list_all spares_counters new"
      using liveliness_entry_trace [of env kv s] Returned by simp
    from extends_trans [OF this Cons.IH [of s']]
    show ?thesis using Returned by simp
  next
    case (Panic msg s')
    then show ?thesis
      using liveliness_entry_trace [of env kv s] by simp
  qed
qed

lemma iterate_kept:
  assumes "CHR ''.'' \<in> set k"
  shows "counter_kept k s (state_of (iterate env kvs s))"
proof (induction kvs arbitrary: s)
  case Nil
  show ?case by simp
next
  case (Cons kv kvs)
  show ?case
  proof (cases "liveliness_entry env kv s")
    case (Returned s')
    have "counter_kept k s s'"
      using liveliness_entry_kept [OF assms, of s env kv] Returned by simp
    from counter_kept_trans [OF this Cons.IH [of s']]
    show ?thesis using Returned by simp
  next
    case (Panic msg s')
    then show ?thesis
      using liveliness_entry_kept [OF assms, of s env kv] by simp
  qed
qed

lemma sweep_pass_trace:
  "\<exists>new. trace (state_of (sweep_pass env s)) = trace s @ new \<and> list_all spares_counters new"
proof -
  have "\<exists>new. trace (emit NewIterator s) = trace s @ new \<and> list_all spares_counters new"
    by simp
  from extends_trans [OF this iterate_trace [of env "db s" "emit NewIterator s"]]
  show ?thesis by (simp add: sweep_pass_def)
qed

lemma sweep_pass_kept:
  assumes "CHR ''.'' \<in> set k"
  shows "counter_kept k s (state_of (sweep_pass env s))"
proof -
  have "counter_kept k s (emit NewIterator s)"
    by (simp add: counter_kept_def)
  from counter_kept_trans [OF this iterate_kept [OF assms, of "emit NewIterator s" env "db s"]]
  show ?thesis by (simp add: sweep_pass_def)
qed

lemma Alive_trace:
  "\<exists>new. trace (state_of (Alive env n s)) = trace s @ new \<and> list_all spares_counters new"
proof (induction n arbitrary: s)
  case 0
  show ?case by simp
next
  case (Suc n)
  show ?case
  proof (cases "sweep_pass env s")
    case (Returned s')
    have "\<exists>new. trace s' = trace s @ new \<and> list_all spares_counters new"
      using sweep_pass_trace [of env s] Returned by simp
    from extends_trans [OF this Suc.IH [of s']]
    show ?thesis using Returned by simp
  next
    case (Panic msg s')
    then show ?thesis
      using sweep_pass_trace [of env s] by simp
  qed
qed

lemma Alive_kept:
  assumes "CHR ''.'' \<in> set k"
  shows "counter_kept k s (state_of (Alive env n s))"
proof (induction n arbitrary: s)
  case 0
  show ?case by simp
next
  case (Suc n)
  show ?case
  proof (cases "sweep_pass env s")
    case (Returned s')
    have "counter_kept k s s'"
      using sweep_pass_kept [OF assms, of s env] Returned by simp
    from counter_kept_trans [OF this Suc.IH [of s']]
    show ?thesis using Returned by simp
  next
    case (Panic msg s')
    then show ?thesis
      using sweep_pass_kept [OF assms, of s env] by simp
  qed
qed

lemma crawl_update_trace:
  assumes "CHR ''.'' \<notin> set pID"
  shows "\<exists>new. trace (crawl_update env pID e ts stored t) = trace t @ new
           \<and> list_all spares_counters new"
  using assms by (simp add: crawl_update_def Let_def)

lemma crawl_update_kept:
  assumes "CHR ''.'' \<notin> set pID" and "CHR ''.'' \<in> set k"
  shows "counter_kept k t (crawl_update env pID e ts stored t)"
proof -
  have "k \<noteq> pID" using assms by auto
  then show ?thesis
    using dot_free_names [OF assms(1)]
    by (simp add: crawl_update_def Let_def counter_kept_def)
qed

lemma crawl_peer_cases:
  "(\<exists>msg. crawl_peer env pID s = Panic msg s)
   \<or> (\<exists>e s1 ts stored.
        ephemeralConnection env (Some (''/p2p/'' @ pID)) s = Inr (e, s1)
        \<and> crawl_peer env pID s =
            Returned (mux_Unlock (crawl_update env pID e ts stored
              (emit (Get pID) (mux_Lock s1)))))"
proof (cases "NewMultiaddr env (''/p2p/'' @ pID)")
  case (Some err)
  then have "crawl_peer env pID s = Panic err s"
    by (simp add: crawl_peer_def)
  then show ?thesis by blast
next
  case None
  show ?thesis
  proof (cases "ephemeralConnection env (AddrInfoFromP2pAddr env (''/p2p/'' @ pID)) s")
    case (Inl msg)
    then have "crawl_peer env pID s = Panic msg s"
      using None by (simp add: crawl_peer_def)
    then show ?thesis by blast
  next
    case (Inr r)
    obtain e s1 where r: "r = (e, s1)" by (cases r)
    have probe: "ephemeralConnection env (AddrInfoFromP2pAddr env (''/p2p/'' @ pID)) s = Inr (e, s1)"
      using Inr r by simp
    have info: "AddrInfoFromP2pAddr env (''/p2p/'' @ pID) = Some (''/p2p/'' @ pID)"
      using Inr AddrInfo_cases [of env "''/p2p/'' @ pID"]
      by (auto simp: ephemeralConnection_def)
    show ?thesis
      using probe [unfolded info] crawl_peer_eq [OF None probe] by blast
  qed
qed

lemma crawl_peer_trace:
  assumes df: "CHR ''.'' \<notin> set pID"
  shows "\<exists>new. trace (state_of (crawl_peer env pID s)) = trace s @ new
           \<and> list_all spares_counters new"
  using crawl_peer_cases [of env pID s]
proof (elim disjE exE conjE)
  fix msg
  assume "crawl_peer env pID s = Panic msg s"
  then show ?thesis by simp
next
  fix e s1 ts stored
  assume returned: "ephemeralConnection env (Some (''/p2p/'' @ pID)) s = Inr (e, s1)"
    "crawl_peer env pID s =
       Returned (mux_Unlock (crawl_update env pID e ts stored (emit (Get pID) (mux_Lock s1))))"
  obtain cs where t1: "trace s1 = trace s @ map (Connect (''/p2p/'' @ pID)) cs"
    using ephemeralConnection_trace [OF returned(1)] by blast
  let ?t = "emit (Get pID) (mux_Lock s1)"
  have a: "\<exists>new. trace ?t = trace s @ new \<and> list_all spares_counters new"
    using spares_probes [OF df, of cs] by (simp add: t1)
  have b: "\<exists>new. trace (mux_Unlock (crawl_update env pID e ts stored ?t)) = trace ?t @ new
             \<and> list_all spares_counters new"
  proof -
    obtain new where "trace (crawl_update env pID e ts stored ?t) = trace ?t @ new"
      "list_all spares_counters new"
      using crawl_update_trace [OF df] by blast
    then have "trace (mux_Unlock (crawl_update env pID e ts stored ?t)) = trace ?t @ (new @ [Unlock])"
      "list_all spares_counters (new @ [Unlock])"
      by simp_all
    then show ?thesis by blast
  qed
  show ?thesis
    unfolding returned(2) state_of.simps by (rule extends_trans [OF a b])
qed

lemma crawl_peer_kept:
  assumes df: "CHR ''.'' \<notin> set pID" and dotted: "CHR ''.'' \<in> set k"
  shows "counter_kept k s (state_of (crawl_peer env pID s))"
  using crawl_peer_cases [of env pID s]
proof (elim disjE exE conjE)
  fix msg
  assume "crawl_peer env pID s = Panic msg s"
  then show ?thesis by simp
next
  fix e s1 ts stored
  assume returned: "ephemeralConnection env (Some (''/p2p/'' @ pID)) s = Inr (e, s1)"
    "crawl_peer env pID s =
       Returned (mux_Unlock (crawl_update env pID e ts stored (emit (Get pID) (mux_Lock s1))))"
  let ?t = "emit (Get pID) (mux_Lock s1)"
  have l: "lookup s1 = lookup s"
    by (rule ephemeralConnection_frame(2) [OF returned(1)])
  have a: "counter_kept k s ?t"
    by (rule counter_kept_lookup) (simp add: l)
  have b: "counter_kept k ?t (mux_Unlock (crawl_update env pID e ts stored ?t))"
    using crawl_update_kept [OF df dotted, of ?t env e ts stored]
    by (simp add: counter_kept_def)
  show ?thesis
    unfolding returned(2) state_of.simps by (rule counter_kept_trans [OF a b])
qed

lemma crawl_peers_trace:
  assumes "list_all (\<lambda>p. CHR ''.'' \<notin> set p) ps"
  shows "\<exists>new. trace (state_of (crawl_peers env ps s)) = trace s @ new
           \<and> list_all spares_counters new"
  using assms
proof (induction ps arbitrary: s)
  case Nil
  show ?case by simp
next
  case (Cons p ps)
  then have df: "CHR ''.'' \<notin> set p" and rest: "list_all (\<lambda>p. CHR ''.'' \<notin> set p) ps"
    by simp_all
  show ?case
  proof (cases "crawl_peer env p s")
    case (Returned s')
    have "\<exists>new. trace s' = trace s @ new \<and> list_all spares_counters new"
      using crawl_peer_trace [OF df, of env s] Returned by simp
    from extends_trans [OF this Cons.IH [OF rest, of s']]
    show ?thesis using Returned by simp
  next
    case (Panic msg s')
    then show ?thesis
      using crawl_peer_trace [OF df, of env s] by simp
  qed
qed

lemma crawl_peers_kept:
  assumes "list_all (\<lambda>p. CHR ''.'' \<notin> set p) ps" and dotted: "CHR ''.'' \<in> set k"
  shows "counter_kept k s (state_of (crawl_peers env ps s))"
  using assms(1)
proof (induction ps arbitrary: s)
  case Nil
  show ?case by simp
next
  case (Cons p ps)
  then have df: "CHR ''.'' \<notin> set p" and rest: "list_all (\<lambda>p. CHR ''.'' \<notin> set p) ps"
    by simp_all
  show ?case
  proof (cases "crawl_peer env p s")
    case (Returned s')
    have "counter_kept k s s'"
      using crawl_peer_kept [OF df dotted, of s env] Returned by simp
    from counter_kept_trans [OF this Cons.IH [OF rest, of s']]
    show ?thesis using Returned by simp
  next
    case (Panic msg s')
    then show ?thesis
      using crawl_peer_kept [OF df dotted, of s env] by simp
  qed
qed

text \<open>
  C8. The sweep takes a key for a peer exactly when it has no dot, and an entry whose
  key has a dot is skipped without any effect. Whatever the sweep does in any number of
  passes, and whatever the walk does with candidates that are peer identifiers (dot-free),
  spares the counters: every probe dials the address of a dot-free key, every delete
  removes a dot-free key, every write to a key with a dot writes an integer; and an
  entry under a key with a dot is kept, that is, its bytes stay or become an integer.
  This holds up to a panic as well.
\<close>

theorem keyspace_discipline:
  assumes dotted: "CHR ''.'' \<in> set k"
    and peers: "list_all (\<lambda>p. CHR ''.'' \<notin> set p) ps"
  shows "(length (Split key CHR ''.'') = 1) = (CHR ''.'' \<notin> set key)
       \<and> liveliness_entry env (k, val) s = Returned s
       \<and> (\<exists>new. trace (state_of (Alive env n s)) = trace s @ new
             \<and> list_all spares_counters new)
       \<and> counter_kept k s (state_of (Alive env n s))
       \<and> (lookup s k \<noteq> None \<longrightarrow> lookup (state_of (Alive env n s)) k \<noteq> None)
       \<and> (\<exists>new. trace (state_of (crawl_peers env ps s)) = trace s @ new
             \<and> list_all spares_counters new)
       \<and> counter_kept k s (state_of (crawl_peers env ps s))
       \<and> (lookup s k \<noteq> None \<longrightarrow> lookup (state_of (crawl_peers env ps s)) k \<noteq> None)"
proof -
  have skipped: "liveliness_entry env (k, val) s = Returned s"
    using dotted by (simp add: liveliness_entry_def Split_single_Suc)
  note sweep = Alive_kept [OF dotted, of s env n]
  note walk = crawl_peers_kept [OF peers dotted, of s env]
  show ?thesis
    using Split_single [of key "CHR ''.''"] skipped Alive_trace [of env n s] sweep
      counter_kept_present [OF sweep] crawl_peers_trace [OF peers, of env s] walk
      counter_kept_present [OF walk]
    by blast
qed

theorem keyspace_discipline_witness:
  "(length (Split ''QmA'' CHR ''.'') = 1) = (CHR ''.'' \<notin> set ''QmA'')
   \<and> liveliness_entry world (''total.count'', Json (JNumber 1)) knows_QmB = Returned knows_QmB
   \<and> (\<exists>new. trace (state_of (Alive world 1 knows_QmB)) = trace knows_QmB @ new
          \<and> list_all spares_counters new)
   \<and> counter_kept ''total.count'' knows_QmB (state_of (Alive world 1 knows_QmB))
   \<and> lookup (state_of (Alive world 1 knows_QmB)) ''total.count'' \<noteq> None
   \<and> (\<exists>new. trace (state_of (crawl_peers world [''QmA'', ''QmB''] knows_QmB))
            = trace knows_QmB @ new
          \<and> list_all spares_counters new)
   \<and> counter_kept ''total.count'' knows_QmB
        (state_of (crawl_peers world [''QmA'', ''QmB''] knows_QmB))
   \<and> lookup (state_of (crawl_peers world [''QmA'', ''QmB''] knows_QmB)) ''total.count''
        \<noteq> None"
proof -
  have h1: "CHR ''.'' \<in> set ''total.count''" by simp
  have h2: "list_all (\<lambda>p. CHR ''.'' \<notin> set p) [''QmA'', ''QmB'']" by simp
  have h3: "lookup knows_QmB ''total.count'' \<noteq> None"
    by (simp add: lookup_def knows_QmB_def store_of_def)
  show ?thesis
    using keyspace_discipline [OF h1 h2, where key = "''QmA''" and env = world
        and val = "Json (JNumber 1)" and s = knows_QmB and n = 1] h3
    by blast
qed

subsection \<open>The lock\<close>

lemma guarded_probes:
  "guarded store_access held (map (Connect a) cs @ es) = guarded store_access held es"
  by (induction cs) simp_all

lemma guarded_accesses:
  "list_all store_access ops \<Longrightarrow> guarded store_access True (ops @ [Unlock])"
proof (induction ops)
  case Nil
  show ?case by simp
next
  case (Cons e ops)
  then show ?case by (cases e) simp_all
qed

lemma guarded_section:
  assumes "list_all store_access ops"
  shows "guarded store_access False (map (Connect a) cs @ Lock # ops @ [Unlock])"
  unfolding guarded_probes using guarded_accesses [OF assms] by simp

lemma crawl_update_accesses:
  "\<exists>ops. trace (crawl_update env pID e ts stored t) = trace t @ ops \<and> list_all store_access ops"
  by (simp add: crawl_update_def Let_def)

lemma crawl_peer_section:
  "(\<exists>msg. crawl_peer env pID s = Panic msg s)
   \<or> (\<exists>s' cs ops. crawl_peer env pID s = Returned s'
         \<and> trace s' = trace s @ map (Connect (''/p2p/'' @ pID)) cs @ Lock # ops @ [Unlock]
         \<and> list_all store_access ops)"
  using crawl_peer_cases [of env pID s]
proof (elim disjE exE conjE)
  fix msg
  assume "crawl_peer env pID s = Panic msg s"
  then show ?thesis by blast
next
  fix e s1 ts stored
  assume returned: "ephemeralConnection env (Some (''/p2p/'' @ pID)) s = Inr (e, s1)"
    "crawl_peer env pID s =
       Returned (mux_Unlock (crawl_update env pID e ts stored (emit (Get pID) (mux_Lock s1))))"
  obtain cs where t1: "trace s1 = trace s @ map (Connect (''/p2p/'' @ pID)) cs"
    using ephemeralConnection_trace [OF returned(1)] by blast
  obtain ops where ops: "trace (crawl_update env pID e ts stored (emit (Get pID) (mux_Lock s1)))
        = trace (emit (Get pID) (mux_Lock s1)) @ ops" "list_all store_access ops"
    using crawl_update_accesses by blast
  let ?s' = "mux_Unlock (crawl_update env pID e ts stored (emit (Get pID) (mux_Lock s1)))"
  have tr: "trace ?s' =
      trace s @ map (Connect (''/p2p/'' @ pID)) cs @ Lock # (Get pID # ops) @ [Unlock]"
    by (simp add: ops(1) t1)
  have "list_all store_access (Get pID # ops)" using ops(2) by simp
  then show ?thesis using returned(2) tr by blast
qed

text \<open>
  C9, amended. For one candidate of the walk, the trace grows by the probe's dials
  followed by one section of the shared mutex that holds store accesses only: the
  lookup, the counter updates, the write-back or the delete all happen under the lock,
  taken after the probe has returned (or the turn panics before it does anything). And
  when the sweep sees a departure, the trace grows by the probe's dials followed by one
  section that holds its three counter updates and its delete.
\<close>

theorem critical_sections:
  assumes dotfree: "CHR ''.'' \<notin> set key"
    and addr: "NewMultiaddr env (''/p2p/'' @ key) = None"
    and probe: "ephemeralConnection env (AddrInfoFromP2pAddr env (''/p2p/'' @ key)) s
                  = Inr (Some e, s1)"
    and nat: "NAT (json_Unmarshal val zero_SeenNode) = False"
  shows "((\<exists>msg. crawl_peer env pID s0 = Panic msg s0)
          \<or> (\<exists>s' cs ops. crawl_peer env pID s0 = Returned s'
               \<and> trace s' = trace s0 @ map (Connect (''/p2p/'' @ pID)) cs @ Lock # ops @ [Unlock]
               \<and> list_all store_access ops
               \<and> guarded store_access False
                    (map (Connect (''/p2p/'' @ pID)) cs @ Lock # ops @ [Unlock])))
       \<and> (\<exists>s' cs ops. liveliness_entry env (key, val) s = Returned s'
               \<and> trace s' = trace s @ map (Connect (''/p2p/'' @ key)) cs @ Lock # ops @ [Unlock]
               \<and> list_all store_access ops
               \<and> guarded store_access False
                    (map (Connect (''/p2p/'' @ key)) cs @ Lock # ops @ [Unlock]))"
proof
  show "(\<exists>msg. crawl_peer env pID s0 = Panic msg s0)
          \<or> (\<exists>s' cs ops. crawl_peer env pID s0 = Returned s'
               \<and> trace s' = trace s0 @ map (Connect (''/p2p/'' @ pID)) cs @ Lock # ops @ [Unlock]
               \<and> list_all store_access ops
               \<and> guarded store_access False
                    (map (Connect (''/p2p/'' @ pID)) cs @ Lock # ops @ [Unlock]))"
    using crawl_peer_section [of env pID s0] guarded_section by blast
next
  have info: "AddrInfoFromP2pAddr env (''/p2p/'' @ key) = Some (''/p2p/'' @ key)"
    using probe AddrInfo_cases [of env "''/p2p/'' @ key"]
    by (auto simp: ephemeralConnection_def)
  obtain cs where t1: "trace s1 = trace s @ map (Connect (''/p2p/'' @ key)) cs"
    using ephemeralConnection_trace probe info by metis
  let ?day = "currentDate env (mux_Lock s1) @ ''.left''"
  let ?a = "mux_Lock s1"
  let ?b = "updateCount ?day True ?a"
  let ?c = "updateCount ''total.count'' False ?b"
  let ?ops = "[Get ?day, Put ?day (Json (JNumber (counter ?a ?day + 1))),
       Get ''total.count'', Put ''total.count'' (Json (JNumber (counter ?b ''total.count'' - 1))),
       Get ''total.left'', Put ''total.left'' (Json (JNumber (counter ?c ''total.left'' + 1))),
       Delete key]"
  let ?s' = "mux_Unlock (db_Delete key (updateCount ''total.left'' True ?c))"
  have run: "liveliness_entry env (key, val) s = Returned ?s'"
    by (rule liveliness_entry_left [OF dotfree addr probe nat])
  have tr: "trace ?s' = trace s @ map (Connect (''/p2p/'' @ key)) cs @ Lock # ?ops @ [Unlock]"
    by (simp add: t1)
  have acc: "list_all store_access ?ops"
    by simp
  show "\<exists>s' cs ops. liveliness_entry env (key, val) s = Returned s'
          \<and> trace s' = trace s @ map (Connect (''/p2p/'' @ key)) cs @ Lock # ops @ [Unlock]
          \<and> list_all store_access ops
          \<and> guarded store_access False
               (map (Connect (''/p2p/'' @ key)) cs @ Lock # ops @ [Unlock])"
    using run tr acc guarded_section [OF acc] by blast
qed

theorem critical_sections_witness:
  "(\<exists>s' cs ops. crawl_peer world ''QmA'' empty_store = Returned s'
       \<and> trace s' = trace empty_store @ map (Connect (''/p2p/'' @ ''QmA'')) cs
                       @ Lock # ops @ [Unlock]
       \<and> list_all store_access ops
       \<and> guarded store_access False
            (map (Connect (''/p2p/'' @ ''QmA'')) cs @ Lock # ops @ [Unlock]))
   \<and> (\<exists>s' cs ops. liveliness_entry world
            (''QmB'', json_Marshal \<lparr>NAT = False, lastSeen = ''1000''\<rparr>) knows_QmB = Returned s'
       \<and> trace s' = trace knows_QmB @ map (Connect (''/p2p/'' @ ''QmB'')) cs
                       @ Lock # ops @ [Unlock]
       \<and> list_all store_access ops
       \<and> guarded store_access False
            (map (Connect (''/p2p/'' @ ''QmB'')) cs @ Lock # ops @ [Unlock]))"
proof -
  let ?S1 = "knows_QmB\<lparr>trace := [Connect ''/p2p/QmB'' 5000000000]\<rparr>"
  have h1: "CHR ''.'' \<notin> set ''QmB''" by simp
  have h2: "NewMultiaddr world (''/p2p/'' @ ''QmB'') = None"
    by (simp add: NewMultiaddr_def world_def sim_env_def)
  have h3: "ephemeralConnection world (AddrInfoFromP2pAddr world (''/p2p/'' @ ''QmB'')) knows_QmB
              = Inr (Some ''connection refused'', ?S1)"
    by (simp add: ephemeralConnection_def AddrInfoFromP2pAddr_def host_Connect_def world_def
        sim_env_def refusing_dial_def errString_def Second_def emit_def knows_QmB_def store_of_def)
  have h4: "NAT (json_Unmarshal (json_Marshal \<lparr>NAT = False, lastSeen = ''1000''\<rparr>) zero_SeenNode)
              = False"
    by simp
  have returns: "crawl_peer world ''QmA'' empty_store \<noteq> Panic msg t" for msg t
    by (simp add: crawl_peer_def NewMultiaddr_def AddrInfoFromP2pAddr_def ephemeralConnection_def
        host_Connect_def world_def sim_env_def refusing_dial_def errString_def Let_def
        split: prod.splits)
  show ?thesis
    using critical_sections [OF h1 h2 h3 h4, of "''QmA''" empty_store] returns
    by blast
qed

text \<open>
  C9 as stated fails: the walk's probe (step 3a) is made before the lock is taken, and
  the sweep writes a refreshed record back without the lock.
\<close>

theorem probe_and_refresh_outside_lock:
  "\<not> guarded probe_or_access False
       (trace (state_of (crawl_peer (sim_env refusing_dial never) ''QmA'' empty_store)))
   \<and> \<not> guarded store_access False
       (trace (state_of (liveliness_entry (sim_env refusing_dial never)
          (''QmA'', json_Marshal \<lparr>NAT = False, lastSeen = ''1000''\<rparr>)
          (store_of ''QmA'' \<lparr>NAT = False, lastSeen = ''1000''\<rparr>))))"
proof
  let ?E = "sim_env refusing_dial never"
  let ?S1 = "empty_store\<lparr>trace := [Connect ''/p2p/QmA'' 5000000000]\<rparr>"
  have h2: "NewMultiaddr ?E (''/p2p/'' @ ''QmA'') = None"
    by (simp add: NewMultiaddr_def sim_env_def)
  have h3: "ephemeralConnection ?E (AddrInfoFromP2pAddr ?E (''/p2p/'' @ ''QmA'')) empty_store
              = Inr (None, ?S1)"
    by (simp add: ephemeralConnection_def AddrInfoFromP2pAddr_def host_Connect_def sim_env_def
        refusing_dial_def errString_def Second_def emit_def empty_store_def)
  obtain ops where "trace (state_of (crawl_peer ?E ''QmA'' empty_store))
      = Connect ''/p2p/QmA'' 5000000000 # ops"
    using crawl_update_accesses
      [of ?E "''QmA''" None "timestamp_now ?E ?S1"
        "case lookup empty_store ''QmA'' of None \<Rightarrow> zero_SeenNode
           | Some b \<Rightarrow> json_Unmarshal b zero_SeenNode"
        "emit (Get ''QmA'') (mux_Lock ?S1)"]
    unfolding crawl_peer_eq [OF h2 h3]
    by (auto simp: empty_store_def)
  then show "\<not> guarded probe_or_access False
       (trace (state_of (crawl_peer ?E ''QmA'' empty_store)))"
    by simp
next
  let ?E = "sim_env refusing_dial never"
  let ?S = "store_of ''QmA'' \<lparr>NAT = False, lastSeen = ''1000''\<rparr>"
  let ?S1 = "?S\<lparr>trace := [Connect ''/p2p/QmA'' 5000000000]\<rparr>"
  have h1: "CHR ''.'' \<notin> set ''QmA''" by simp
  have h2: "NewMultiaddr ?E (''/p2p/'' @ ''QmA'') = None"
    by (simp add: NewMultiaddr_def sim_env_def)
  have h3: "ephemeralConnection ?E (AddrInfoFromP2pAddr ?E (''/p2p/'' @ ''QmA'')) ?S
              = Inr (None, ?S1)"
    by (simp add: ephemeralConnection_def AddrInfoFromP2pAddr_def host_Connect_def sim_env_def
        refusing_dial_def errString_def Second_def emit_def store_of_def)
  have "liveliness_entry ?E (''QmA'', json_Marshal \<lparr>NAT = False, lastSeen = ''1000''\<rparr>) ?S
      = Returned (storeSeenNode ''QmA'' \<lparr>NAT = False, lastSeen = timestamp_now ?E ?S1\<rparr> ?S1)"
    using liveliness_entry_seen [OF h1 h2 h3] by simp
  then show "\<not> guarded store_access False
       (trace (state_of (liveliness_entry ?E
          (''QmA'', json_Marshal \<lparr>NAT = False, lastSeen = ''1000''\<rparr>) ?S)))"
    by (simp add: store_of_def)
qed

end
